theory Spec2Isabelle
  imports Complex_Main
begin

text \<open>
  A shallow embedding of the calculation engine of the investment simulator,
  \<^verbatim>\<open>src/lib/calculos.ts\<close>: the inflation schedule, the contribution policies, the
  monthly projection \<^verbatim>\<open>calcularProjecao\<close>, the two solvers \<^verbatim>\<open>aporteNecessario\<close> and
  \<^verbatim>\<open>taxaNecessaria\<close>, and the parser of the inflation table, with the sensitivity grid
  of \<^verbatim>\<open>App.tsx\<close>. Definitions keep the names
  of the source; a \<^verbatim>\<open>for\<close> loop over \<^verbatim>\<open>1 .. n\<close> is a fold over \<open>[1 ..< Suc n]\<close>, a
  loop with a fixed number of iterations is a recursion on the iterations that remain.
\<close>

section \<open>JavaScript numbers\<close>

text \<open>
  Every quantity of \<^verbatim>\<open>src/lib/calculos.ts\<close> is a JavaScript \<^verbatim>\<open>number\<close>.
  A number is modelled as an exact real or one of the three special values
  \<^verbatim>\<open>Infinity\<close>, \<^verbatim>\<open>-Infinity\<close> and \<^verbatim>\<open>NaN\<close>. The operators below follow
  ECMAScript on the special values (division by zero, \<^verbatim>\<open>Infinity - Infinity\<close>,
  comparisons with \<^verbatim>\<open>NaN\<close>, \<^verbatim>\<open>Math.pow\<close> of a negative base). On finite
  operands the operators are exact. The rounding of binary64 and its overflow to infinity
  are a function of their own, \<open>round64\<close> below, which the projection in binary64,
  \<open>calcularProjecao64\<close>, applies to the result of every operation. Zero is read as
  \<^verbatim>\<open>+0\<close>.
\<close>

datatype number = Num real | PosInf | NegInf | NaN

fun isFinite :: "number \<Rightarrow> bool" where
  "isFinite (Num a) = True"
| "isFinite PosInf = False"
| "isFinite NegInf = False"
| "isFinite NaN = False"

instantiation number :: "{zero, one, plus, uminus, minus, times, inverse, ord}"
begin

definition zero_number :: number where
  "zero_number = Num 0"

definition one_number :: number where
  "one_number = Num 1"

fun plus_number :: "number \<Rightarrow> number \<Rightarrow> number" where
  "plus_number (Num a) (Num b) = Num (a + b)"
| "plus_number NaN y = NaN"
| "plus_number x NaN = NaN"
| "plus_number PosInf NegInf = NaN"
| "plus_number NegInf PosInf = NaN"
| "plus_number PosInf y = PosInf"
| "plus_number x PosInf = PosInf"
| "plus_number NegInf y = NegInf"
| "plus_number x NegInf = NegInf"

fun uminus_number :: "number \<Rightarrow> number" where
  "uminus_number (Num a) = Num (- a)"
| "uminus_number PosInf = NegInf"
| "uminus_number NegInf = PosInf"
| "uminus_number NaN = NaN"

definition minus_number :: "number \<Rightarrow> number \<Rightarrow> number" where
  "minus_number x y = x + (- y)"

fun times_number :: "number \<Rightarrow> number \<Rightarrow> number" where
  "times_number (Num a) (Num b) = Num (a * b)"
| "times_number NaN y = NaN"
| "times_number x NaN = NaN"
| "times_number PosInf (Num b) = (if b = 0 then NaN else if 0 < b then PosInf else NegInf)"
| "times_number NegInf (Num b) = (if b = 0 then NaN else if 0 < b then NegInf else PosInf)"
| "times_number (Num a) PosInf = (if a = 0 then NaN else if 0 < a then PosInf else NegInf)"
| "times_number (Num a) NegInf = (if a = 0 then NaN else if 0 < a then NegInf else PosInf)"
| "times_number PosInf PosInf = PosInf"
| "times_number PosInf NegInf = NegInf"
| "times_number NegInf PosInf = NegInf"
| "times_number NegInf NegInf = PosInf"

fun divide_number :: "number \<Rightarrow> number \<Rightarrow> number" where
  "divide_number (Num a) (Num b) =
     (if b \<noteq> 0 then Num (a / b)
      else if a = 0 then NaN else if 0 < a then PosInf else NegInf)"
| "divide_number NaN y = NaN"
| "divide_number x NaN = NaN"
| "divide_number (Num a) PosInf = Num 0"
| "divide_number (Num a) NegInf = Num 0"
| "divide_number PosInf (Num b) = (if 0 \<le> b then PosInf else NegInf)"
| "divide_number NegInf (Num b) = (if 0 \<le> b then NegInf else PosInf)"
| "divide_number PosInf y = NaN"
| "divide_number NegInf y = NaN"

definition inverse_number :: "number \<Rightarrow> number" where
  "inverse_number x = divide (Num 1) x"

text \<open>\<^verbatim>\<open>x <= y\<close> and \<^verbatim>\<open>x < y\<close>; \<^verbatim>\<open>x >= y\<close> is \<^verbatim>\<open>y <= x\<close>. A comparison
  with \<^verbatim>\<open>NaN\<close> is false.\<close>

fun less_eq_number :: "number \<Rightarrow> number \<Rightarrow> bool" where
  "less_eq_number (Num a) (Num b) = (a \<le> b)"
| "less_eq_number NaN y = False"
| "less_eq_number x NaN = False"
| "less_eq_number NegInf y = True"
| "less_eq_number x PosInf = True"
| "less_eq_number PosInf y = False"
| "less_eq_number x NegInf = False"

fun less_number :: "number \<Rightarrow> number \<Rightarrow> bool" where
  "less_number (Num a) (Num b) = (a < b)"
| "less_number NaN y = False"
| "less_number x NaN = False"
| "less_number PosInf y = False"
| "less_number x NegInf = False"
| "less_number NegInf y = True"
| "less_number x PosInf = True"

instance ..

end

text \<open>\<^verbatim>\<open>Math.max(x, y)\<close>: \<^verbatim>\<open>NaN\<close> when an argument is \<^verbatim>\<open>NaN\<close>.\<close>

definition Math_max :: "number \<Rightarrow> number \<Rightarrow> number" where
  "Math_max x y = (if x = NaN \<or> y = NaN then NaN else if x \<le> y then y else x)"

definition isInteger :: "real \<Rightarrow> bool" where
  "isInteger e = (e = of_int \<lfloor>e\<rfloor>)"

text \<open>\<^verbatim>\<open>Math.pow(b, e)\<close>, in the order of the cases of ECMAScript's
  \<^verbatim>\<open>Number::exponentiate\<close>.\<close>

fun Math_pow :: "number \<Rightarrow> number \<Rightarrow> number" where
  "Math_pow b NaN = NaN"
| "Math_pow b (Num e) =
     (if e = 0 then Num 1
      else case b of
        NaN \<Rightarrow> NaN
      | PosInf \<Rightarrow> (if 0 < e then PosInf else Num 0)
      | NegInf \<Rightarrow> (if 0 < e then (if isInteger e \<and> odd \<lfloor>e\<rfloor> then NegInf else PosInf) else Num 0)
      | Num x \<Rightarrow>
          (if x = 0 then (if 0 < e then Num 0 else PosInf)
           else if isInteger e then Num (x powi \<lfloor>e\<rfloor>)
           else if x < 0 then NaN
           else Num (x powr e)))"
| "Math_pow b PosInf =
     (case b of
        NaN \<Rightarrow> NaN
      | Num x \<Rightarrow> (if 1 < \<bar>x\<bar> then PosInf else if \<bar>x\<bar> = 1 then NaN else Num 0)
      | _ \<Rightarrow> PosInf)"
| "Math_pow b NegInf =
     (case b of
        NaN \<Rightarrow> NaN
      | Num x \<Rightarrow> (if 1 < \<bar>x\<bar> then Num 0 else if \<bar>x\<bar> = 1 then NaN else PosInf)
      | _ \<Rightarrow> Num 0)"

section \<open>Inflation schedule\<close>

text \<open>
  \<^verbatim>\<open>inflacaoAnualDoAno(anoIndex, inflacaoPadrao, tabela?)\<close>. The optional table is a
  \<open>number list option\<close>. The result is \<open>None\<close> where the source reads
  \<^verbatim>\<open>tabela[anoIndex - 1]\<close> at a negative index, which JavaScript answers by
  \<^verbatim>\<open>undefined\<close>.
\<close>

definition inflacaoAnualDoAno :: "int \<Rightarrow> number \<Rightarrow> number list option \<Rightarrow> number option" where
  "inflacaoAnualDoAno anoIndex inflacaoPadrao tabela =
     (case tabela of
        None \<Rightarrow> Some inflacaoPadrao
      | Some t \<Rightarrow>
          if length t = 0 then Some inflacaoPadrao
          else if anoIndex - 1 < int (length t)
            then (if 0 \<le> anoIndex - 1 then Some (t ! nat (anoIndex - 1)) else None)
          else Some (t ! (length t - 1)))"

text \<open>An \<^verbatim>\<open>undefined\<close> operand of an arithmetic operator is converted to \<^verbatim>\<open>NaN\<close>.\<close>

fun toNumber :: "number option \<Rightarrow> number" where
  "toNumber None = NaN"
| "toNumber (Some x) = x"

definition inflacaoMensalDoMes :: "nat \<Rightarrow> number \<Rightarrow> number list option \<Rightarrow> number" where
  "inflacaoMensalDoMes m inflacaoPadrao tabela =
     (let ano = \<lceil>real m / 12\<rceil>;
          ia = inflacaoAnualDoAno ano inflacaoPadrao tabela
      in Math_pow (1 + toNumber ia) (Num (1 / 12)) - 1)"

section \<open>Contribution policies\<close>

text \<open>
  The tagged union \<^verbatim>\<open>PoliticaAporte\<close>; each constructor carries the field of its
  variant. The fields are typed \<^verbatim>\<open>number\<close>, so the source's \<^verbatim>\<open>?? 0\<close> on them
  never takes its default.
\<close>

datatype PoliticaAporte =
    constante
  | mensal_pct number
  | anual_pct number
  | anual_inflacao
  | anual_real number

text \<open>
  \<^verbatim>\<open>aporteNoMes(mes, base, politica, inflacaoAnual, inflacaoTabela?)\<close>. The month is
  the loop counter of the callers, a natural number. The two \<^verbatim>\<open>for\<close> loops over
  \<^verbatim>\<open>k = 1 .. anosDecorridosAjuste\<close> multiply \<^verbatim>\<open>fator\<close> from left to right.
\<close>

definition aporteNoMes ::
    "nat \<Rightarrow> number \<Rightarrow> PoliticaAporte \<Rightarrow> number \<Rightarrow> number list option \<Rightarrow> number" where
  "aporteNoMes m base politica inflAnual inflTabela =
     (let anosDecorridosAjuste = nat \<lfloor>real m / 12\<rfloor> in
      case politica of
        constante \<Rightarrow> base
      | mensal_pct mensalPct \<Rightarrow> base * Math_pow (1 + mensalPct) (Num (real m - 1))
      | anual_pct anualPct \<Rightarrow> base * Math_pow (1 + anualPct) (Num (real anosDecorridosAjuste))
      | anual_inflacao \<Rightarrow>
          base * foldl (\<lambda>fator k. fator * (1 + toNumber (inflacaoAnualDoAno (int k) inflAnual inflTabela)))
                   1 [1 ..< Suc anosDecorridosAjuste]
      | anual_real realExtra \<Rightarrow>
          base * foldl (\<lambda>fator k. fator *
                          ((1 + toNumber (inflacaoAnualDoAno (int k) inflAnual inflTabela)) * (1 + realExtra)))
                   1 [1 ..< Suc anosDecorridosAjuste])"

section \<open>Projection\<close>

record ProjecaoDado =
  mes :: nat
  saldo :: number
  contribuicoesAcum :: number
  ganhosAcum :: number
  aporte :: number

text \<open>
  The argument object of \<^verbatim>\<open>calcularProjecao\<close>. The horizon \<open>anosLimite\<close> is a finite
  real: the interface reads it from a range slider, and the loops of the engine run up to
  a month count computed from it. \<open>politicaAporte\<close> is optional and defaults to
  \<^verbatim>\<open>{ tipo: "constante" }\<close>.
  \<^verbatim>\<open>aporteNecessario\<close> and \<^verbatim>\<open>taxaNecessaria\<close> take the same object without the
  field they solve for (\<open>aporteMensal\<close>, \<open>rentabAnual\<close>) and call the horizon
  \<^verbatim>\<open>anos\<close>; they are given the same record here and do not read that field.
\<close>

record entrada =
  montanteInicial :: number
  aporteMensal :: number
  rentabAnual :: number
  meta :: number
  anosLimite :: real
  contribuicaoNoInicio :: bool
  usarTaxaReal :: bool
  inflacaoAnual :: number
  inflacaoTabela :: "number list option"
  politicaAporte :: "PoliticaAporte option"

definition politicaOuPadrao :: "entrada \<Rightarrow> PoliticaAporte" where
  "politicaOuPadrao p = (case politicaAporte p of None \<Rightarrow> constante | Some pol \<Rightarrow> pol)"

text \<open>The variables the loop of \<^verbatim>\<open>calcularProjecao\<close> updates.\<close>

record estado =
  saldoAtual :: number
  contribAtual :: number
  serie :: "ProjecaoDado list"
  alvo :: "nat option"
  somaInflacaoMensal :: number

definition taxaNominal :: "entrada \<Rightarrow> number" where
  "taxaNominal p = Math_pow (1 + rentabAnual p) (Num (1 / 12)) - 1"

definition mesesLimite :: "entrada \<Rightarrow> nat" where
  "mesesLimite p = nat (max 1 \<lfloor>anosLimite p * 12\<rfloor>)"

definition taxaMensalEfetiva :: "entrada \<Rightarrow> nat \<Rightarrow> number" where
  "taxaMensalEfetiva p m =
     (let inflMensal = inflacaoMensalDoMes m (inflacaoAnual p) (inflacaoTabela p) in
      if usarTaxaReal p then (1 + taxaNominal p) / (1 + inflMensal) - 1 else taxaNominal p)"

text \<open>The body of the loop, for month \<open>m\<close>.\<close>

definition passo :: "entrada \<Rightarrow> estado \<Rightarrow> nat \<Rightarrow> estado" where
  "passo p st m =
     (let inflMensal = inflacaoMensalDoMes m (inflacaoAnual p) (inflacaoTabela p);
          soma = somaInflacaoMensal st + inflMensal;
          taxa = taxaMensalEfetiva p m;
          aporteMes = aporteNoMes m (aporteMensal p) (politicaOuPadrao p) (inflacaoAnual p) (inflacaoTabela p);
          novoSaldo =
            (if contribuicaoNoInicio p then (saldoAtual st + aporteMes) * (1 + taxa)
             else saldoAtual st * (1 + taxa) + aporteMes);
          novoContrib = contribAtual st + aporteMes
      in \<lparr> saldoAtual = novoSaldo,
           contribAtual = novoContrib,
           serie = serie st @ [\<lparr> mes = m, saldo = novoSaldo, contribuicoesAcum = novoContrib,
                                   ganhosAcum = novoSaldo - novoContrib, aporte = aporteMes \<rparr>],
           alvo = (if alvo st = None \<and> meta p \<le> novoSaldo then Some m else alvo st),
           somaInflacaoMensal = soma \<rparr>)"

definition estadoInicial :: "entrada \<Rightarrow> estado" where
  "estadoInicial p =
     \<lparr> saldoAtual = montanteInicial p,
       contribAtual = montanteInicial p,
       serie = [\<lparr> mes = 0, saldo = montanteInicial p, contribuicoesAcum = montanteInicial p,
                   ganhosAcum = montanteInicial p - montanteInicial p, aporte = 0 \<rparr>],
       alvo = (if meta p \<le> montanteInicial p then Some 0 else None),
       somaInflacaoMensal = 0 \<rparr>"

text \<open>The state after the months \<open>1 .. n\<close> of the loop.\<close>

definition estadoApos :: "entrada \<Rightarrow> nat \<Rightarrow> estado" where
  "estadoApos p n = foldl (passo p) (estadoInicial p) [1 ..< Suc n]"

record resultado =
  dados :: "ProjecaoDado list"
  mesAlvo :: "nat option"
  taxaMensalNominalConst :: number
  taxaMensalInflacaoMedia :: number

definition calcularProjecao :: "entrada \<Rightarrow> resultado" where
  "calcularProjecao p =
     (let st = estadoApos p (mesesLimite p) in
      \<lparr> dados = serie st,
        mesAlvo = alvo st,
        taxaMensalNominalConst = taxaNominal p,
        taxaMensalInflacaoMedia = somaInflacaoMensal st / Num (real (max 1 (mesesLimite p))) \<rparr>)"

section \<open>Required contribution\<close>

text \<open>
  \<^verbatim>\<open>aporteNecessario\<close>. Its month count rounds the horizon (\<^verbatim>\<open>Math.round\<close> rounds
  halves up), where \<^verbatim>\<open>calcularProjecao\<close> takes the floor.
\<close>

definition nMeses :: "entrada \<Rightarrow> nat" where
  "nMeses p = nat (max 1 \<lfloor>anosLimite p * 12 + 1 / 2\<rfloor>)"

datatype erro = TypeError

text \<open>
  \<^verbatim>\<open>dados[nMeses]?.saldo ?? dados[dados.length - 1].saldo\<close>: an index past the end
  reads \<^verbatim>\<open>undefined\<close>, the optional chain passes it on and \<^verbatim>\<open>??\<close> takes the
  last record; reading \<^verbatim>\<open>.saldo\<close> of the last record of an empty array throws a
  \<^verbatim>\<open>TypeError\<close>.
\<close>

definition saldoFinal :: "ProjecaoDado list \<Rightarrow> nat \<Rightarrow> erro + number" where
  "saldoFinal ds n =
     (if n < length ds then Inr (saldo (ds ! n))
      else if ds = [] then Inl TypeError
      else Inr (saldo (ds ! (length ds - 1))))"

definition atingeMetaComAporte :: "entrada \<Rightarrow> number \<Rightarrow> erro + bool" where
  "atingeMetaComAporte p A =
     (let r = calcularProjecao (p \<lparr> aporteMensal := A \<rparr>) in
      if (case mesAlvo r of None \<Rightarrow> False | Some ma \<Rightarrow> ma \<le> nMeses p) then Inr True
      else case saldoFinal (dados r) (nMeses p) of
             Inl e \<Rightarrow> Inl e
           | Inr sf \<Rightarrow> Inr (meta p \<le> sf))"

text \<open>
  The doubling loop \<^verbatim>\<open>while (!atingeMetaComAporte(hi) && safety < 50)\<close>, with its
  \<^verbatim>\<open>break\<close> once \<^verbatim>\<open>hi > 1e9\<close>; the result is the value of \<^verbatim>\<open>hi\<close> after it.
\<close>

function dobrar :: "entrada \<Rightarrow> number \<Rightarrow> nat \<Rightarrow> erro + number" where
  "dobrar p hi safety =
     (case atingeMetaComAporte p hi of
        Inl e \<Rightarrow> Inl e
      | Inr ok \<Rightarrow>
          if \<not> ok \<and> safety < 50
          then (let hi2 = hi * Num 2 in
                if Num 1000000000 < hi2 then Inr hi2 else dobrar p hi2 (Suc safety))
          else Inr hi)"
  by pat_completeness auto
termination
  by (relation "measure (\<lambda>(p, hi, safety). 50 - safety)") auto

declare dobrar.simps [simp del]

text \<open>The bisection \<^verbatim>\<open>for (let i = 0; i < 80; i++)\<close>; the first argument counts the
  iterations that remain.\<close>

fun bissecao :: "entrada \<Rightarrow> nat \<Rightarrow> number \<Rightarrow> number \<Rightarrow> erro + number" where
  "bissecao p 0 lo hi = Inr hi"
| "bissecao p (Suc i) lo hi =
     (let mid = (lo + hi) / Num 2 in
      case atingeMetaComAporte p mid of
        Inl e \<Rightarrow> Inl e
      | Inr ok \<Rightarrow> if ok then bissecao p i lo mid else bissecao p i mid hi)"

definition hiInicial :: "entrada \<Rightarrow> number" where
  "hiInicial p = Math_max (Num 100) (meta p / Num (real (nMeses p)))"

definition aporteNecessario :: "entrada \<Rightarrow> erro + number" where
  "aporteNecessario p =
     (case dobrar p (hiInicial p) 0 of
        Inl e \<Rightarrow> Inl e
      | Inr hi \<Rightarrow> bissecao p 80 (Num 0) hi)"

section \<open>Required rate\<close>

text \<open>\<^verbatim>\<open>saldoFinalComTaxa\<close>, the simulation of \<^verbatim>\<open>taxaNecessaria\<close> over the months
  \<^verbatim>\<open>1 .. n\<close>.\<close>

definition saldoFinalComTaxa :: "entrada \<Rightarrow> number \<Rightarrow> number" where
  "saldoFinalComTaxa p rMensalNominalConst =
     foldl (\<lambda>sal m.
        let inflMensal = inflacaoMensalDoMes m (inflacaoAnual p) (inflacaoTabela p);
            rEfetivo = (if usarTaxaReal p then (1 + rMensalNominalConst) / (1 + inflMensal) - 1
                        else rMensalNominalConst);
            aporteMes = aporteNoMes m (aporteMensal p) (politicaOuPadrao p) (inflacaoAnual p) (inflacaoTabela p)
        in if contribuicaoNoInicio p then (sal + aporteMes) * (1 + rEfetivo)
           else sal * (1 + rEfetivo) + aporteMes)
       (montanteInicial p) [1 ..< Suc (nMeses p)]"

text \<open>\<^verbatim>\<open>inflacaoTabela.reduce((acc, val) => acc + val, 0) / inflacaoTabela.length\<close>, or
  the default rate.\<close>

definition inflacaoMediaAnual :: "entrada \<Rightarrow> number" where
  "inflacaoMediaAnual p =
     (case inflacaoTabela p of
        None \<Rightarrow> inflacaoAnual p
      | Some t \<Rightarrow> if 0 < length t then foldl (+) (Num 0) t / Num (real (length t))
                  else inflacaoAnual p)"

definition toAnualNominal :: "entrada \<Rightarrow> number \<Rightarrow> number" where
  "toAnualNominal p rMensal =
     (let rAnualReal = Math_pow (1 + rMensal) (Num 12) - 1 in
      if \<not> usarTaxaReal p then rAnualReal
      else (1 + rAnualReal) * (1 + inflacaoMediaAnual p) - 1)"

text \<open>
  The loop \<^verbatim>\<open>for (let i = 0; i < 160; i++)\<close>; the first argument counts the iterations
  that remain, the result is the value of \<^verbatim>\<open>found\<close> after the loop (\<open>None\<close> is
  \<^verbatim>\<open>null\<close>). The \<^verbatim>\<open>break\<close> leaves the loop.
\<close>

fun buscaTaxa :: "entrada \<Rightarrow> nat \<Rightarrow> number \<Rightarrow> number \<Rightarrow> number option \<Rightarrow> number option" where
  "buscaTaxa p 0 lo hi found = found"
| "buscaTaxa p (Suc i) lo hi found =
     (let mid = (lo + hi) / Num 2;
          sf = saldoFinalComTaxa p mid
      in if \<not> isFinite sf then found
         else if meta p \<le> sf then buscaTaxa p i lo mid (Some mid)
         else buscaTaxa p i mid hi found)"

definition taxaNecessaria :: "entrada \<Rightarrow> number option" where
  "taxaNecessaria p =
     (case buscaTaxa p 160 (Num (- 0.9)) (Num 1.0) None of
        None \<Rightarrow> None
      | Some found \<Rightarrow> Some (toAnualNominal p found))"

text \<open>
  The midpoints the loop of \<^verbatim>\<open>taxaNecessaria\<close> evaluates, in order: the candidates of
  the search. The list ends with the candidate at which the loop breaks, if it does.
\<close>

fun candidatos :: "entrada \<Rightarrow> nat \<Rightarrow> number \<Rightarrow> number \<Rightarrow> number list" where
  "candidatos p 0 lo hi = []"
| "candidatos p (Suc i) lo hi =
     (let mid = (lo + hi) / Num 2;
          sf = saldoFinalComTaxa p mid
      in if \<not> isFinite sf then [mid]
         else if meta p \<le> sf then mid # candidatos p i lo mid
         else mid # candidatos p i mid hi)"

section \<open>Parsing the inflation table\<close>







section \<open>The sensitivity grid\<close>

text \<open>
  One cell of the sensitivity grid of \<^verbatim>\<open>App.tsx\<close>: the annual return is shifted by \<open>vr\<close> and
  floored at \<open>-0.99\<close>, the contribution is scaled by \<open>1 + va\<close> and floored at 0, and the
  cell shows the month in which the projection reaches the target.
\<close>

definition rentabSensibilidade :: "number \<Rightarrow> number \<Rightarrow> number" where
  "rentabSensibilidade rentab vr = Math_max (Num (- 0.99)) (rentab + vr)"

definition aporteSensibilidade :: "number \<Rightarrow> number \<Rightarrow> number" where
  "aporteSensibilidade aporteBase va = Math_max (Num 0) (aporteBase * (1 + va))"

definition sensibilidade :: "entrada \<Rightarrow> number \<Rightarrow> number \<Rightarrow> nat option" where
  "sensibilidade p va vr =
     mesAlvo (calcularProjecao
       (p \<lparr> aporteMensal := aporteSensibilidade (aporteMensal p) va,
            rentabAnual := rentabSensibilidade (rentabAnual p) vr \<rparr>))"

section \<open>Binary64 rounding\<close>

text \<open>
  The arithmetic of the source is IEEE 754 binary64, rounding to nearest, ties to even.
  \<open>binary64 x\<close> is the binary64 number nearest the real \<open>x\<close>: \<open>e\<close> is the exponent of the
  binade of \<open>x\<close>, at least \<open>-1022\<close>, where the subnormal numbers begin; \<open>q = 2 ^ (e - 52)\<close> is
  the distance between neighbouring binary64 numbers there; \<open>x / q\<close> is rounded to the
  nearest integer, to the even one at a tie; a result of magnitude \<open>2 ^ 1024\<close> or more is
  an infinity. \<open>round64\<close> rounds a number and keeps the special values.
\<close>

definition binary64 :: "real \<Rightarrow> number" where
  "binary64 x =
     (if x = 0 then Num 0
      else
        let e = max \<lfloor>log 2 \<bar>x\<bar>\<rfloor> (- 1022);
            q = 2 powi (e - 52);
            n = \<lfloor>x / q\<rfloor>;
            r = x / q - of_int n;
            k = (if r < 1 / 2 then n else if 1 / 2 < r then n + 1 else if even n then n else n + 1);
            y = of_int k * q
        in if 2 powi 1024 \<le> \<bar>y\<bar> then (if 0 < x then PosInf else NegInf) else Num y)"

fun round64 :: "number \<Rightarrow> number" where
  "round64 (Num a) = binary64 a"
| "round64 PosInf = PosInf"
| "round64 NegInf = NegInf"
| "round64 NaN = NaN"

section \<open>The projection in binary64\<close>

text \<open>
  \<^verbatim>\<open>calcularProjecao\<close> once more, with a rounding \<open>ar\<close> applied to the result of every
  arithmetic operation, in the order in which the source evaluates them. With the identity
  for \<open>ar\<close> this is \<open>calcularProjecao\<close> above (lemma \<open>calcularProjecao_ar_exato\<close>); with
  \<open>round64\<close> it is the projection in the arithmetic of the source, \<open>calcularProjecao64\<close>.
  \<^verbatim>\<open>Math.pow\<close> is taken as correctly rounded. The month \<^verbatim>\<open>mes\<close> is a loop counter, an
  integer: \<^verbatim>\<open>mes - 1\<close> is exact, and \<^verbatim>\<open>Math.floor(mes / 12)\<close> and
  \<^verbatim>\<open>Math.ceil(mes / 12)\<close> are those of the exact quotient, since rounding is monotone and
  the integers in reach are binary64 numbers. The number of months \<open>mesesLimite\<close> is that
  of the exact model.
\<close>

definition inflacaoMensalDoMes_ar ::
    "(number \<Rightarrow> number) \<Rightarrow> nat \<Rightarrow> number \<Rightarrow> number list option \<Rightarrow> number" where
  "inflacaoMensalDoMes_ar ar m inflacaoPadrao tabela =
     (let ano = \<lceil>real m / 12\<rceil>;
          ia = inflacaoAnualDoAno ano inflacaoPadrao tabela
      in ar (ar (Math_pow (ar (1 + toNumber ia)) (ar (Num 1 / Num 12))) - 1))"

definition aporteNoMes_ar ::
    "(number \<Rightarrow> number) \<Rightarrow> nat \<Rightarrow> number \<Rightarrow> PoliticaAporte \<Rightarrow> number \<Rightarrow> number list option \<Rightarrow> number" where
  "aporteNoMes_ar ar m base politica inflAnual inflTabela =
     (let anosDecorridosAjuste = nat \<lfloor>real m / 12\<rfloor> in
      case politica of
        constante \<Rightarrow> base
      | mensal_pct mensalPct \<Rightarrow> ar (base * ar (Math_pow (ar (1 + mensalPct)) (Num (real m - 1))))
      | anual_pct anualPct \<Rightarrow> ar (base * ar (Math_pow (ar (1 + anualPct)) (Num (real anosDecorridosAjuste))))
      | anual_inflacao \<Rightarrow>
          ar (base * foldl (\<lambda>fator k. ar (fator *
                               ar (1 + toNumber (inflacaoAnualDoAno (int k) inflAnual inflTabela))))
                       1 [1 ..< Suc anosDecorridosAjuste])
      | anual_real realExtra \<Rightarrow>
          ar (base * foldl (\<lambda>fator k. ar (fator *
                               ar (ar (1 + toNumber (inflacaoAnualDoAno (int k) inflAnual inflTabela))
                                   * ar (1 + realExtra))))
                       1 [1 ..< Suc anosDecorridosAjuste]))"

definition taxaNominal_ar :: "(number \<Rightarrow> number) \<Rightarrow> entrada \<Rightarrow> number" where
  "taxaNominal_ar ar p = ar (ar (Math_pow (ar (1 + rentabAnual p)) (ar (Num 1 / Num 12))) - 1)"

definition taxaMensalEfetiva_ar :: "(number \<Rightarrow> number) \<Rightarrow> entrada \<Rightarrow> nat \<Rightarrow> number" where
  "taxaMensalEfetiva_ar ar p m =
     (let inflMensal = inflacaoMensalDoMes_ar ar m (inflacaoAnual p) (inflacaoTabela p) in
      if usarTaxaReal p then ar (ar (ar (1 + taxaNominal_ar ar p) / ar (1 + inflMensal)) - 1)
      else taxaNominal_ar ar p)"

definition passo_ar :: "(number \<Rightarrow> number) \<Rightarrow> entrada \<Rightarrow> estado \<Rightarrow> nat \<Rightarrow> estado" where
  "passo_ar ar p st m =
     (let inflMensal = inflacaoMensalDoMes_ar ar m (inflacaoAnual p) (inflacaoTabela p);
          soma = ar (somaInflacaoMensal st + inflMensal);
          taxa = taxaMensalEfetiva_ar ar p m;
          aporteMes = aporteNoMes_ar ar m (aporteMensal p) (politicaOuPadrao p) (inflacaoAnual p) (inflacaoTabela p);
          novoSaldo =
            (if contribuicaoNoInicio p then ar (ar (saldoAtual st + aporteMes) * ar (1 + taxa))
             else ar (ar (saldoAtual st * ar (1 + taxa)) + aporteMes));
          novoContrib = ar (contribAtual st + aporteMes)
      in \<lparr> saldoAtual = novoSaldo,
           contribAtual = novoContrib,
           serie = serie st @ [\<lparr> mes = m, saldo = novoSaldo, contribuicoesAcum = novoContrib,
                                   ganhosAcum = ar (novoSaldo - novoContrib), aporte = aporteMes \<rparr>],
           alvo = (if alvo st = None \<and> meta p \<le> novoSaldo then Some m else alvo st),
           somaInflacaoMensal = soma \<rparr>)"

definition estadoInicial_ar :: "(number \<Rightarrow> number) \<Rightarrow> entrada \<Rightarrow> estado" where
  "estadoInicial_ar ar p =
     \<lparr> saldoAtual = montanteInicial p,
       contribAtual = montanteInicial p,
       serie = [\<lparr> mes = 0, saldo = montanteInicial p, contribuicoesAcum = montanteInicial p,
                   ganhosAcum = ar (montanteInicial p - montanteInicial p), aporte = 0 \<rparr>],
       alvo = (if meta p \<le> montanteInicial p then Some 0 else None),
       somaInflacaoMensal = 0 \<rparr>"

definition estadoApos_ar :: "(number \<Rightarrow> number) \<Rightarrow> entrada \<Rightarrow> nat \<Rightarrow> estado" where
  "estadoApos_ar ar p n = foldl (passo_ar ar p) (estadoInicial_ar ar p) [1 ..< Suc n]"

definition calcularProjecao_ar :: "(number \<Rightarrow> number) \<Rightarrow> entrada \<Rightarrow> resultado" where
  "calcularProjecao_ar ar p =
     (let st = estadoApos_ar ar p (mesesLimite p) in
      \<lparr> dados = serie st,
        mesAlvo = alvo st,
        taxaMensalNominalConst = taxaNominal_ar ar p,
        taxaMensalInflacaoMedia = ar (somaInflacaoMensal st / Num (real (max 1 (mesesLimite p)))) \<rparr>)"

definition calcularProjecao64 :: "entrada \<Rightarrow> resultado" where
  "calcularProjecao64 p = calcularProjecao_ar round64 p"

section \<open>The loop of the projection\<close>

lemma estadoApos_0: "estadoApos p 0 = estadoInicial p"
  by (simp add: estadoApos_def)

lemma estadoApos_Suc: "estadoApos p (Suc n) = passo p (estadoApos p n) (Suc n)"
  by (simp add: estadoApos_def)

lemma serie_passo:
  "serie (passo p st m) = serie st @ [\<lparr> mes = m, saldo = saldoAtual (passo p st m),
      contribuicoesAcum = contribAtual (passo p st m),
      ganhosAcum = saldoAtual (passo p st m) - contribAtual (passo p st m),
      aporte = aporteNoMes m (aporteMensal p) (politicaOuPadrao p) (inflacaoAnual p) (inflacaoTabela p) \<rparr>]"
  by (simp add: passo_def Let_def)

lemma saldoAtual_passo:
  "saldoAtual (passo p st m) =
     (if contribuicaoNoInicio p
      then (saldoAtual st + aporteNoMes m (aporteMensal p) (politicaOuPadrao p) (inflacaoAnual p) (inflacaoTabela p))
             * (1 + taxaMensalEfetiva p m)
      else saldoAtual st * (1 + taxaMensalEfetiva p m)
             + aporteNoMes m (aporteMensal p) (politicaOuPadrao p) (inflacaoAnual p) (inflacaoTabela p))"
  by (simp add: passo_def Let_def)

lemma alvo_passo:
  "alvo (passo p st m) = (if alvo st = None \<and> meta p \<le> saldoAtual (passo p st m) then Some m else alvo st)"
  by (simp add: passo_def Let_def)

lemma length_serie: "length (serie (estadoApos p n)) = Suc n"
  by (induction n) (simp_all add: estadoApos_0 estadoApos_Suc serie_passo estadoInicial_def)

lemma serie_prefix: "k \<le> n \<Longrightarrow> take (Suc k) (serie (estadoApos p n)) = serie (estadoApos p k)"
proof (induction n)
  case 0
  then show ?case by (simp add: length_serie)
next
  case (Suc n)
  show ?case
  proof (cases "k = Suc n")
    case True
    then show ?thesis by (simp add: length_serie)
  next
    case False
    with Suc.prems have "k \<le> n" by simp
    then show ?thesis using Suc.IH by (simp add: estadoApos_Suc serie_passo length_serie)
  qed
qed

lemma serie_last: "saldo (serie (estadoApos p n) ! n) = saldoAtual (estadoApos p n)"
  by (cases n) (simp_all add: estadoApos_0 estadoInicial_def estadoApos_Suc serie_passo nth_append length_serie)

lemma serie_nth: "k \<le> n \<Longrightarrow> serie (estadoApos p n) ! k = serie (estadoApos p k) ! k"
proof -
  assume "k \<le> n"
  then have "take (Suc k) (serie (estadoApos p n)) ! k = serie (estadoApos p k) ! k"
    by (simp only: serie_prefix)
  then show ?thesis by simp
qed

lemma saldo_dados: "k \<le> mesesLimite p \<Longrightarrow> saldo (dados (calcularProjecao p) ! k) = saldoAtual (estadoApos p k)"
  using serie_nth [of k "mesesLimite p" p] by (simp add: calcularProjecao_def Let_def serie_last)

lemmas num_simps = one_number_def zero_number_def minus_number_def isInteger_def

lemmas avaliar = estadoApos_def estadoInicial_def passo_def Let_def taxaMensalEfetiva_def taxaNominal_def
     inflacaoMensalDoMes_def inflacaoAnualDoAno_def aporteNoMes_def politicaOuPadrao_def calcularProjecao_def
     mesesLimite_def num_simps eval_nat_numeral upt_rec

section \<open>The search for the required contribution\<close>

lemma length_dados: "length (dados (calcularProjecao p)) = Suc (mesesLimite p)"
  by (simp add: calcularProjecao_def Let_def length_serie)

lemma mesesLimite_aporteMensal: "mesesLimite (p \<lparr> aporteMensal := A \<rparr>) = mesesLimite p"
  by (simp add: mesesLimite_def)

lemma saldoFinal_nonempty:
  "ds \<noteq> [] \<Longrightarrow> saldoFinal ds n = Inr (if n < length ds then saldo (ds ! n) else saldo (last ds))"
  by (simp add: saldoFinal_def last_conv_nth)

lemma saldoFinal_dados:
  "saldoFinal (dados (calcularProjecao p)) n =
     Inr (if n \<le> mesesLimite p then saldo (dados (calcularProjecao p) ! n)
          else saldo (last (dados (calcularProjecao p))))"
proof -
  have "dados (calcularProjecao p) \<noteq> []"
    using length_dados [of p] by auto
  then show ?thesis
    by (simp add: saldoFinal_nonempty length_dados less_Suc_eq_le)
qed

lemma atinge_total: "\<exists>b. atingeMetaComAporte p A = Inr b"
  by (auto simp: atingeMetaComAporte_def Let_def saldoFinal_dados)

lemma mesesLimite_le_nMeses: "mesesLimite p \<le> nMeses p"
proof -
  have "\<lfloor>anosLimite p * 12\<rfloor> \<le> \<lfloor>anosLimite p * 12 + 1 / 2\<rfloor>"
    by (rule floor_mono) simp
  then show ?thesis by (simp add: mesesLimite_def nMeses_def nat_mono)
qed

lemma nMeses_le_Suc_mesesLimite: "nMeses p \<le> Suc (mesesLimite p)"
proof -
  have "\<lfloor>anosLimite p * 12 + 1 / 2\<rfloor> \<le> \<lfloor>anosLimite p * 12 + 1\<rfloor>"
    by (rule floor_mono) simp
  then have "\<lfloor>anosLimite p * 12 + 1 / 2\<rfloor> \<le> \<lfloor>anosLimite p * 12\<rfloor> + 1"
    by simp
  then have "max 1 \<lfloor>anosLimite p * 12 + 1 / 2\<rfloor> \<le> max 1 \<lfloor>anosLimite p * 12\<rfloor> + 1"
    by linarith
  then show ?thesis unfolding mesesLimite_def nMeses_def by linarith
qed

lemma dobrar_total: "\<exists>h. dobrar p hi safety = Inr h"
proof (induction p hi safety rule: dobrar.induct)
  case (1 p hi safety)
  obtain ok where ok: "atingeMetaComAporte p hi = Inr ok"
    using atinge_total by blast
  show ?case
  proof (cases "\<not> ok \<and> safety < 50 \<and> \<not> Num 1000000000 < hi * Num 2")
    case True
    with ok 1 [of ok "hi * Num 2"] show ?thesis
      by (subst dobrar.simps) (simp add: Let_def)
  next
    case False
    with ok show ?thesis
      by (subst dobrar.simps) (auto simp: Let_def)
  qed
qed

lemma bissecao_passo:
  "bissecao p (Suc i) lo hi =
     (if atingeMetaComAporte p ((lo + hi) / Num 2) = Inr True then bissecao p i lo ((lo + hi) / Num 2)
      else bissecao p i ((lo + hi) / Num 2) hi)"
proof -
  obtain ok where "atingeMetaComAporte p ((lo + hi) / Num 2) = Inr ok"
    using atinge_total by blast
  then show ?thesis by (simp add: Let_def)
qed

lemma bissecao_invariante:
  "atingeMetaComAporte p hi = Inr True \<Longrightarrow>
     \<exists>r. bissecao p i lo hi = Inr r \<and> atingeMetaComAporte p r = Inr True"
proof (induction i arbitrary: lo hi)
  case 0
  then show ?case by simp
next
  case (Suc i)
  show ?case
  proof (cases "atingeMetaComAporte p ((lo + hi) / Num 2) = Inr True")
    case True
    from Suc.IH [OF True, of lo] True show ?thesis
      by (simp add: bissecao_passo del: bissecao.simps)
  next
    case False
    from Suc.IH [OF Suc.prems, of "(lo + hi) / Num 2"] False show ?thesis
      by (simp add: bissecao_passo del: bissecao.simps)
  qed
qed

lemma bissecao_total: "\<exists>r. bissecao p i lo hi = Inr r"
proof (induction i arbitrary: lo hi)
  case 0
  then show ?case by simp
next
  case (Suc i)
  then show ?case by (simp add: bissecao_passo del: bissecao.simps)
qed

section \<open>The search for the required rate\<close>

lemma buscaTaxa_None:
  "buscaTaxa p i lo hi found = None \<longleftrightarrow>
     found = None \<and> \<not> (\<exists>mid \<in> set (candidatos p i lo hi).
                          isFinite (saldoFinalComTaxa p mid) \<and> meta p \<le> saldoFinalComTaxa p mid)"
proof (induction i arbitrary: lo hi found)
  case 0
  show ?case by simp
next
  case (Suc i)
  show ?case
    by (simp add: Let_def Suc.IH)
qed

lemma buscaTaxa_Some:
  "buscaTaxa p i lo hi found = Some r \<Longrightarrow>
     found = Some r \<or> (r \<in> set (candidatos p i lo hi)
                       \<and> isFinite (saldoFinalComTaxa p r) \<and> meta p \<le> saldoFinalComTaxa p r)"
proof (induction i arbitrary: lo hi found)
  case 0
  then show ?case by simp
next
  case (Suc i)
  let ?mid = "(lo + hi) / Num 2"
  show ?case
  proof (cases "isFinite (saldoFinalComTaxa p ?mid)")
    case False
    with Suc.prems show ?thesis by (simp add: Let_def)
  next
    case True
    show ?thesis
    proof (cases "meta p \<le> saldoFinalComTaxa p ?mid")
      case ge: True
      with True Suc.prems have "buscaTaxa p i lo ?mid (Some ?mid) = Some r" by (simp add: Let_def)
      from Suc.IH [OF this] True ge show ?thesis by (auto simp: Let_def)
    next
      case lt: False
      with True Suc.prems have "buscaTaxa p i ?mid hi found = Some r" by (simp add: Let_def)
      from Suc.IH [OF this] True lt show ?thesis by (auto simp: Let_def)
    qed
  qed
qed

lemma length_candidatos: "length (candidatos p i lo hi) \<le> i"
  by (induction i arbitrary: lo hi) (simp_all add: Let_def)

lemma candidatos_nao_finito:
  "k < length (candidatos p i lo hi) \<Longrightarrow> \<not> isFinite (saldoFinalComTaxa p (candidatos p i lo hi ! k))
     \<Longrightarrow> Suc k = length (candidatos p i lo hi)"
proof (induction i arbitrary: lo hi k)
  case 0
  then show ?case by simp
next
  case (Suc i)
  let ?mid = "(lo + hi) / Num 2"
  show ?case
  proof (cases "isFinite (saldoFinalComTaxa p ?mid)")
    case False
    with Suc.prems show ?thesis by (simp add: Let_def)
  next
    case True
    then obtain k' where k: "k = Suc k'"
      using Suc.prems by (cases k) (auto simp: Let_def split: if_splits)
    show ?thesis
    proof (cases "meta p \<le> saldoFinalComTaxa p ?mid")
      case ge: True
      with True Suc.prems k Suc.IH [of k' lo ?mid] show ?thesis by (simp add: Let_def)
    next
      case lt: False
      with True Suc.prems k Suc.IH [of k' ?mid hi] show ?thesis by (simp add: Let_def)
    qed
  qed
qed

lemma primeiro_candidato:
  "isFinite (saldoFinalComTaxa p ((lo + hi) / Num 2)) \<Longrightarrow> meta p \<le> saldoFinalComTaxa p ((lo + hi) / Num 2)
     \<Longrightarrow> buscaTaxa p (Suc i) lo hi found \<noteq> None"
  by (simp add: buscaTaxa_None Let_def)

lemma foldl_plus_Num: "foldl (+) (Num a) (map Num xs) = Num (a + sum_list xs)"
  by (induction xs arbitrary: a) (simp_all add: add.assoc)

lemma media_aritmetica:
  "xs \<noteq> [] \<Longrightarrow> inflacaoTabela p = Some (map Num xs)
     \<Longrightarrow> inflacaoMediaAnual p = Num (sum_list xs / real (length xs))"
  by (simp add: inflacaoMediaAnual_def foldl_plus_Num)

lemma candidatos_intervalo:
  "a \<le> b \<Longrightarrow> mid \<in> set (candidatos p i (Num a) (Num b)) \<Longrightarrow> \<exists>r. mid = Num r \<and> a \<le> r \<and> r \<le> b"
proof (induction i arbitrary: a b)
  case 0
  then show ?case by simp
next
  case (Suc i)
  let ?m = "(a + b) / 2"
  have m: "(Num a + Num b) / Num 2 = Num ?m" by simp
  have am: "a \<le> ?m" and mb: "?m \<le> b" using Suc.prems(1) by simp_all
  from Suc.prems(2) have "mid = Num ?m \<or> mid \<in> set (candidatos p i (Num a) (Num ?m))
      \<or> mid \<in> set (candidatos p i (Num ?m) (Num b))"
    by (auto simp: m Let_def split: if_splits)
  then show ?case
  proof (elim disjE)
    assume "mid = Num ?m"
    with am mb show ?thesis by blast
  next
    assume "mid \<in> set (candidatos p i (Num a) (Num ?m))"
    from Suc.IH [OF am this] mb show ?thesis by force
  next
    assume "mid \<in> set (candidatos p i (Num ?m) (Num b))"
    from Suc.IH [OF mb this] am show ?thesis by force
  qed
qed

section \<open>Rounding to binary64 within a binade\<close>

text \<open>
  Once the binade of \<open>x\<close> is known, \<open>binary64 x\<close> is computed by rational arithmetic alone.
\<close>

lemma binary64_binade:
  assumes "2 powi e \<le> \<bar>x\<bar>" and "\<bar>x\<bar> < 2 powi (e + 1)" and "- 1022 \<le> e"
  shows "binary64 x =
     (let q = 2 powi (e - 52);
          n = \<lfloor>x / q\<rfloor>;
          r = x / q - of_int n;
          k = (if r < 1 / 2 then n else if 1 / 2 < r then n + 1 else if even n then n else n + 1);
          y = of_int k * q
      in if 2 powi 1024 \<le> \<bar>y\<bar> then (if 0 < x then PosInf else NegInf) else Num y)"
proof -
  have pos: "0 < \<bar>x\<bar>"
    using assms(1) by (smt (verit) zero_less_power_int)
  have p: "(2::real) powr real_of_int k = 2 powi k" for k
    by (rule powr_real_of_int') simp_all
  have "2 powr real_of_int e \<le> \<bar>x\<bar>"
    using assms(1) by (simp only: p)
  moreover have "\<bar>x\<bar> < 2 powr real_of_int (e + 1)"
    using assms(2) by (simp only: p)
  ultimately have "2 powr real_of_int e \<le> \<bar>x\<bar> \<and> \<bar>x\<bar> < 2 powr real_of_int (e + 1)" ..
  then have "\<lfloor>log 2 \<bar>x\<bar>\<rfloor> = e"
    using floor_log_eq_powr_iff [of "\<bar>x\<bar>" 2 e] pos by (simp del: of_int_add)
  then have "max \<lfloor>log 2 \<bar>x\<bar>\<rfloor> (- 1022) = e" using assms(3) by simp
  moreover have "x \<noteq> 0" using pos by auto
  ultimately show ?thesis by (simp add: binary64_def)
qed

lemma binary64_0: "binary64 0 = Num 0"
  by (simp add: binary64_def)

lemma binary64_1: "binary64 1 = Num 1"
  using binary64_binade [of 0 1] by (simp add: Let_def power_int_minus)

lemma binary64_um_doze: "binary64 (1 / 12) = Num (6004799503160661 / 72057594037927936)"
  using binary64_binade [of "- 4" "1 / 12"] by (simp add: Let_def power_int_minus)

lemma binary64_um_decimo: "binary64 (1 / 10) = Num (3602879701896397 / 36028797018963968)"
  using binary64_binade [of "- 4" "1 / 10"] by (simp add: Let_def power_int_minus)

text \<open>
  The sum of 1 and the binary64 number just below it is a tie, and rounds to 2: in
  binary64 the midpoint \<^verbatim>\<open>(lo + hi) / 2\<close> of an interval can be one of its ends.
\<close>

lemma ponto_medio64_extremo:
  "round64 (round64 (Num (1 - 1 / 2 ^ 53) + Num 1) / Num 2) = Num 1"
proof -
  have "binary64 (2 - 1 / 2 ^ 53) = Num 2"
    using binary64_binade [of 0 "2 - 1 / 2 ^ 53"] by (simp add: Let_def power_int_minus)
  then have "round64 (Num (1 - 1 / 2 ^ 53) + Num 1) = Num 2"
    by simp
  then show ?thesis by (simp add: binary64_1)
qed

section \<open>The loop of the projection in binary64\<close>

lemma inflacaoMensalDoMes_ar_exato: "inflacaoMensalDoMes_ar (\<lambda>x. x) = inflacaoMensalDoMes"
  by (intro ext) (simp add: inflacaoMensalDoMes_ar_def inflacaoMensalDoMes_def)

lemma aporteNoMes_ar_exato: "aporteNoMes_ar (\<lambda>x. x) = aporteNoMes"
  by (intro ext) (simp add: aporteNoMes_ar_def aporteNoMes_def)

lemma taxaNominal_ar_exato: "taxaNominal_ar (\<lambda>x. x) = taxaNominal"
  by (intro ext) (simp add: taxaNominal_ar_def taxaNominal_def)

lemma taxaMensalEfetiva_ar_exato: "taxaMensalEfetiva_ar (\<lambda>x. x) = taxaMensalEfetiva"
  by (intro ext)
     (simp add: taxaMensalEfetiva_ar_def taxaMensalEfetiva_def inflacaoMensalDoMes_ar_exato taxaNominal_ar_exato)

lemma passo_ar_exato: "passo_ar (\<lambda>x. x) = passo"
  by (intro ext)
     (simp add: passo_ar_def passo_def inflacaoMensalDoMes_ar_exato taxaMensalEfetiva_ar_exato
        aporteNoMes_ar_exato)

lemma calcularProjecao_ar_exato: "calcularProjecao_ar (\<lambda>x. x) p = calcularProjecao p"
  by (simp add: calcularProjecao_ar_def calcularProjecao_def estadoApos_ar_def estadoApos_def
        estadoInicial_ar_def estadoInicial_def passo_ar_exato taxaNominal_ar_exato)

lemma estadoApos_ar_0: "estadoApos_ar ar p 0 = estadoInicial_ar ar p"
  by (simp add: estadoApos_ar_def)

lemma estadoApos_ar_Suc: "estadoApos_ar ar p (Suc n) = passo_ar ar p (estadoApos_ar ar p n) (Suc n)"
  by (simp add: estadoApos_ar_def)

lemma serie_passo_ar:
  "serie (passo_ar ar p st m) = serie st @ [\<lparr> mes = m, saldo = saldoAtual (passo_ar ar p st m),
      contribuicoesAcum = contribAtual (passo_ar ar p st m),
      ganhosAcum = ar (saldoAtual (passo_ar ar p st m) - contribAtual (passo_ar ar p st m)),
      aporte = aporteNoMes_ar ar m (aporteMensal p) (politicaOuPadrao p) (inflacaoAnual p) (inflacaoTabela p) \<rparr>]"
  by (simp add: passo_ar_def Let_def)

lemma length_serie_ar: "length (serie (estadoApos_ar ar p n)) = Suc n"
  by (induction n) (simp_all add: estadoApos_ar_0 estadoApos_ar_Suc serie_passo_ar estadoInicial_ar_def)

lemma serie_prefix_ar:
  "k \<le> n \<Longrightarrow> take (Suc k) (serie (estadoApos_ar ar p n)) = serie (estadoApos_ar ar p k)"
proof (induction n)
  case 0
  then show ?case by (simp add: length_serie_ar)
next
  case (Suc n)
  show ?case
  proof (cases "k = Suc n")
    case True
    then show ?thesis by (simp add: length_serie_ar)
  next
    case False
    with Suc.prems have "k \<le> n" by simp
    then show ?thesis using Suc.IH by (simp add: estadoApos_ar_Suc serie_passo_ar length_serie_ar)
  qed
qed

lemma serie_last_ar: "saldo (serie (estadoApos_ar ar p n) ! n) = saldoAtual (estadoApos_ar ar p n)"
  by (cases n)
     (simp_all add: estadoApos_ar_0 estadoInicial_ar_def estadoApos_ar_Suc serie_passo_ar nth_append
        length_serie_ar)

lemma saldo_dados_ar:
  assumes "k \<le> mesesLimite p"
  shows "saldo (dados (calcularProjecao_ar ar p) ! k) = saldoAtual (estadoApos_ar ar p k)"
proof -
  have "take (Suc k) (serie (estadoApos_ar ar p (mesesLimite p))) ! k = serie (estadoApos_ar ar p k) ! k"
    using assms by (simp only: serie_prefix_ar)
  then show ?thesis by (simp add: calcularProjecao_ar_def Let_def serie_last_ar)
qed

lemma taxaNominal64_zero: "rentabAnual p = Num 0 \<Longrightarrow> taxaNominal_ar round64 p = Num 0"
  by (simp add: taxaNominal_ar_def num_simps binary64_0 binary64_1 binary64_um_doze)

lemma saldo64_sem_juros_passo:
  assumes "rentabAnual p = Num 0" and "\<not> usarTaxaReal p" and "politicaOuPadrao p = constante"
    and "contribuicaoNoInicio p"
  shows "saldoAtual (estadoApos_ar round64 p (Suc k)) =
           round64 (round64 (saldoAtual (estadoApos_ar round64 p k) + aporteMensal p) * Num 1)"
  using assms
  by (simp add: estadoApos_ar_Suc passo_ar_def Let_def taxaMensalEfetiva_ar_def taxaNominal64_zero
        aporteNoMes_ar_def num_simps binary64_1)

section \<open>The claims\<close>

subsection \<open>C1: the monthly update of the balance\<close>

text \<open>
  C1. For every month \<open>m\<close> from 1 to the horizon, the record of month \<open>m\<close> holds the
  balance obtained from the balance of record \<open>m - 1\<close> by the effective monthly rate
  \<open>r\<close> and the contribution of the month: \<open>r\<close> is
  \<open>(1 + taxaConst) / (1 + inflacaoMensalDoMes m) - 1\<close> when \<open>usarTaxaReal\<close> holds and the
  constant \<open>taxaConst = (1 + rentabAnual)^(1/12) - 1\<close> otherwise; the new balance is
  \<open>(old + contribution) * (1 + r)\<close> when the contribution is made at the start of the
  month and \<open>old * (1 + r) + contribution\<close> otherwise.
\<close>

theorem C1_atualizacao_do_saldo:
  assumes "1 \<le> m" and "m \<le> mesesLimite p"
  shows "length (dados (calcularProjecao p)) = Suc (mesesLimite p)
       \<and> taxaMensalNominalConst (calcularProjecao p) = Math_pow (1 + rentabAnual p) (Num (1 / 12)) - 1
       \<and> mes (dados (calcularProjecao p) ! m) = m
       \<and> aporte (dados (calcularProjecao p) ! m) =
             aporteNoMes m (aporteMensal p) (politicaOuPadrao p) (inflacaoAnual p) (inflacaoTabela p)
       \<and> saldo (dados (calcularProjecao p) ! m) =
          (let antigo = saldo (dados (calcularProjecao p) ! (m - 1));
               contribuicao = aporteNoMes m (aporteMensal p) (politicaOuPadrao p) (inflacaoAnual p) (inflacaoTabela p);
               taxaConst = Math_pow (1 + rentabAnual p) (Num (1 / 12)) - 1;
               r = (if usarTaxaReal p
                    then (1 + taxaConst) / (1 + inflacaoMensalDoMes m (inflacaoAnual p) (inflacaoTabela p)) - 1
                    else taxaConst)
           in if contribuicaoNoInicio p then (antigo + contribuicao) * (1 + r)
              else antigo * (1 + r) + contribuicao)"
proof -
  obtain k where m: "m = Suc k" using assms(1) by (cases m) auto
  have k: "k \<le> mesesLimite p" using assms(2) m by simp
  have len: "length (dados (calcularProjecao p)) = Suc (mesesLimite p)"
    by (simp add: calcularProjecao_def Let_def length_serie)
  have tx: "taxaMensalNominalConst (calcularProjecao p) = Math_pow (1 + rentabAnual p) (Num (1 / 12)) - 1"
    by (simp add: calcularProjecao_def Let_def taxaNominal_def)
  have reg: "dados (calcularProjecao p) ! m = serie (estadoApos p m) ! m"
    using serie_nth [OF assms(2)] by (simp add: calcularProjecao_def Let_def)
  have ult: "serie (estadoApos p (Suc k)) ! Suc k =
      \<lparr> mes = Suc k, saldo = saldoAtual (estadoApos p (Suc k)),
        contribuicoesAcum = contribAtual (estadoApos p (Suc k)),
        ganhosAcum = saldoAtual (estadoApos p (Suc k)) - contribAtual (estadoApos p (Suc k)),
        aporte = aporteNoMes (Suc k) (aporteMensal p) (politicaOuPadrao p) (inflacaoAnual p) (inflacaoTabela p) \<rparr>"
    by (simp add: estadoApos_Suc serie_passo nth_append length_serie)
  have ant: "saldo (dados (calcularProjecao p) ! (m - 1)) = saldoAtual (estadoApos p k)"
    using saldo_dados [OF k] m by simp
  have novo: "saldo (dados (calcularProjecao p) ! m) = saldoAtual (passo p (estadoApos p k) (Suc k))"
    using reg ult m by (simp add: estadoApos_Suc)
  show ?thesis
    using len tx reg ult m ant novo
    by (simp add: saldoAtual_passo taxaMensalEfetiva_def taxaNominal_def Let_def)
qed

theorem C1_atualizacao_do_saldo_witness:
  "(1::nat) \<le> 2
   \<and> 2 \<le> mesesLimite \<lparr> montanteInicial = Num 1000, aporteMensal = Num 100, rentabAnual = Num 0,
          meta = Num 1150, anosLimite = 1 / 6, contribuicaoNoInicio = True, usarTaxaReal = True,
          inflacaoAnual = Num 0, inflacaoTabela = None, politicaAporte = None \<rparr>
   \<and> saldo (dados (calcularProjecao \<lparr> montanteInicial = Num 1000, aporteMensal = Num 100, rentabAnual = Num 0,
          meta = Num 1150, anosLimite = 1 / 6, contribuicaoNoInicio = True, usarTaxaReal = True,
          inflacaoAnual = Num 0, inflacaoTabela = None, politicaAporte = None \<rparr>) ! 2) = Num 1200"
proof -
  let ?p = "\<lparr> montanteInicial = Num 1000, aporteMensal = Num 100, rentabAnual = Num 0,
          meta = Num 1150, anosLimite = 1 / 6, contribuicaoNoInicio = True, usarTaxaReal = True,
          inflacaoAnual = Num 0, inflacaoTabela = None, politicaAporte = None \<rparr>"
  have h: "mesesLimite ?p = 2" by (simp add: mesesLimite_def)
  have a: "saldo (dados (calcularProjecao ?p) ! 1) = Num 1100"
    by (simp add: avaliar)
  have "(1::nat) \<le> 2" and "2 \<le> mesesLimite ?p" using h by simp_all
  from C1_atualizacao_do_saldo [OF this] a show ?thesis
    by (simp add: h Let_def inflacaoMensalDoMes_def inflacaoAnualDoAno_def aporteNoMes_def politicaOuPadrao_def num_simps)
qed

subsection \<open>C2: the adjustment year\<close>

lemma times_Num_1: "(x::number) * Num 1 = x"
  by (cases x) simp_all

lemma Math_pow_Num_0: "Math_pow b (Num 0) = Num 1"
  by simp

lemma Math_pow_Num_1: "Math_pow b (Num 1) = b"
  by (cases b) (simp_all add: isInteger_def)

lemma anos_decorridos: "nat \<lfloor>real m / 12\<rfloor> = m div 12"
proof -
  have "\<lfloor>real m / real (12::nat)\<rfloor> = int (m div 12)"
    by (rule floor_divide_of_nat_eq)
  then show ?thesis by simp
qed

text \<open>
  C2. \<open>aporteNoMes\<close> uses the adjustment-year index \<open>floor(m / 12) = m div 12\<close>: under
  \<open>anual_pct g\<close> the contribution is \<open>base * (1 + g)^(m div 12)\<close>, which is the base
  unchanged in the months 1 to 11 and \<open>base * (1 + g)\<close> in month 12; the amount only changes
  at the multiples of 12. The two inflation-linked policies take their products over the
  years \<open>1 .. m div 12\<close>.
\<close>

theorem C2_indice_de_reajuste:
  "aporteNoMes m base (anual_pct g) ia tab = base * Math_pow (1 + g) (Num (real (m div 12)))
   \<and> aporteNoMes m base anual_inflacao ia tab =
       base * foldl (\<lambda>fator k. fator * (1 + toNumber (inflacaoAnualDoAno (int k) ia tab))) 1 [1 ..< Suc (m div 12)]
   \<and> aporteNoMes m base (anual_real extra) ia tab =
       base * foldl (\<lambda>fator k. fator * ((1 + toNumber (inflacaoAnualDoAno (int k) ia tab)) * (1 + extra)))
                1 [1 ..< Suc (m div 12)]
   \<and> (1 \<le> m \<and> m \<le> 11 \<longrightarrow> aporteNoMes m base (anual_pct g) ia tab = base)
   \<and> aporteNoMes 12 base (anual_pct g) ia tab = base * (1 + g)
   \<and> (\<forall>j k. j < 12 \<longrightarrow> aporteNoMes (12 * k + j) base (anual_pct g) ia tab
                          = aporteNoMes (12 * k) base (anual_pct g) ia tab)"
proof -
  have a: "aporteNoMes m base (anual_pct g) ia tab = base * Math_pow (1 + g) (Num (real (m div 12)))" for m
    by (simp add: aporteNoMes_def Let_def anos_decorridos)
  have b: "1 \<le> m \<and> m \<le> 11 \<longrightarrow> aporteNoMes m base (anual_pct g) ia tab = base"
    by (simp add: a times_Num_1)
  have c: "aporteNoMes 12 base (anual_pct g) ia tab = base * (1 + g)"
    by (simp add: a Math_pow_Num_1 del: Math_pow.simps)
  have d: "\<forall>j k. j < 12 \<longrightarrow> aporteNoMes (12 * k + j) base (anual_pct g) ia tab
                          = aporteNoMes (12 * k) base (anual_pct g) ia tab"
    by (simp add: a)
  show ?thesis
    using a b c d by (simp add: aporteNoMes_def Let_def anos_decorridos)
qed

theorem C2_indice_de_reajuste_witness:
  "aporteNoMes 11 (Num 100) (anual_pct (Num (1 / 2))) (Num 0) None = Num 100
   \<and> aporteNoMes 12 (Num 100) (anual_pct (Num (1 / 2))) (Num 0) None = Num 150
   \<and> aporteNoMes 23 (Num 100) (anual_pct (Num (1 / 2))) (Num 0) None = Num 150"
proof -
  have t: "(1::nat) \<le> 11 \<and> (11::nat) \<le> 11" by simp
  have j: "(11::nat) < 12" by simp
  have e: "aporteNoMes (12 * 1 + 11) (Num 100) (anual_pct (Num (1 / 2))) (Num 0) None
      = aporteNoMes (12 * 1) (Num 100) (anual_pct (Num (1 / 2))) (Num 0) None"
    using C2_indice_de_reajuste [of 11 "Num 100" "Num (1 / 2)" "Num 0" None] j by blast
  from C2_indice_de_reajuste [of 11 "Num 100" "Num (1 / 2)" "Num 0" None] t e
  show ?thesis by (simp add: one_number_def)
qed

subsection \<open>C3: the month the target is reached\<close>

lemma alvo_estadoInicial:
  "alvo (estadoApos p 0) = (if meta p \<le> montanteInicial p then Some 0 else None)"
  by (simp add: estadoApos_0 estadoInicial_def)

lemma alvo_Suc:
  "alvo (estadoApos p (Suc n)) =
     (if alvo (estadoApos p n) = None \<and> meta p \<le> saldoAtual (estadoApos p (Suc n)) then Some (Suc n)
      else alvo (estadoApos p n))"
  by (simp add: estadoApos_Suc alvo_passo)

lemma alvo_mantido: "alvo (estadoApos p n) = Some k \<Longrightarrow> alvo (estadoApos p (n + d)) = Some k"
  by (induction d) (simp_all add: alvo_Suc)

lemma alvo_invariante:
  "case alvo (estadoApos p n) of
     None \<Rightarrow> \<not> meta p \<le> montanteInicial p
              \<and> (\<forall>m. 1 \<le> m \<and> m \<le> n \<longrightarrow> \<not> meta p \<le> saldoAtual (estadoApos p m))
   | Some k \<Rightarrow>
       if meta p \<le> montanteInicial p then k = 0
       else 1 \<le> k \<and> k \<le> n \<and> meta p \<le> saldoAtual (estadoApos p k)
            \<and> (\<forall>m. 1 \<le> m \<and> m < k \<longrightarrow> \<not> meta p \<le> saldoAtual (estadoApos p m))"
proof (induction n)
  case 0
  show ?case by (simp add: alvo_estadoInicial)
next
  case (Suc n)
  show ?case
  proof (cases "alvo (estadoApos p n)")
    case None
    with Suc have ih: "\<not> meta p \<le> montanteInicial p"
      "\<forall>m. 1 \<le> m \<and> m \<le> n \<longrightarrow> \<not> meta p \<le> saldoAtual (estadoApos p m)" by simp_all
    show ?thesis
    proof (cases "meta p \<le> saldoAtual (estadoApos p (Suc n))")
      case True
      with None have "alvo (estadoApos p (Suc n)) = Some (Suc n)" by (simp add: alvo_Suc)
      with True ih show ?thesis by (simp add: less_Suc_eq_le)
    next
      case False
      with None have "alvo (estadoApos p (Suc n)) = None" by (simp add: alvo_Suc)
      with False ih show ?thesis by (auto simp: le_Suc_eq)
    qed
  next
    case (Some k)
    then have "alvo (estadoApos p (Suc n)) = Some k" by (simp add: alvo_Suc)
    with Some Suc show ?thesis by (auto split: if_splits)
  qed
qed

text \<open>
  C3. Record 0 holds the initial amount. \<open>mesAlvo\<close> is 0 when the initial amount already
  reaches the target; otherwise it is the first month of \<open>1 .. mesesLimite\<close> whose recorded
  balance reaches the target, and \<open>None\<close> when no month does. Once the loop has set the
  month, every later iteration keeps it.
\<close>

theorem C3_mes_alvo:
  "saldo (dados (calcularProjecao p) ! 0) = montanteInicial p
   \<and> (meta p \<le> montanteInicial p \<longrightarrow> mesAlvo (calcularProjecao p) = Some 0)
   \<and> (\<not> meta p \<le> montanteInicial p \<longrightarrow>
        (case mesAlvo (calcularProjecao p) of
           None \<Rightarrow> \<forall>m. 1 \<le> m \<and> m \<le> mesesLimite p \<longrightarrow> \<not> meta p \<le> saldo (dados (calcularProjecao p) ! m)
         | Some k \<Rightarrow> 1 \<le> k \<and> k \<le> mesesLimite p \<and> meta p \<le> saldo (dados (calcularProjecao p) ! k)
                     \<and> (\<forall>m. 1 \<le> m \<and> m < k \<longrightarrow> \<not> meta p \<le> saldo (dados (calcularProjecao p) ! m))))
   \<and> (\<forall>n n' k. n \<le> n' \<and> alvo (estadoApos p n) = Some k \<longrightarrow> alvo (estadoApos p n') = Some k)"
proof -
  have seed: "saldo (dados (calcularProjecao p) ! 0) = montanteInicial p"
    using saldo_dados [of 0 p] by (simp add: estadoApos_0 estadoInicial_def)
  have res: "mesAlvo (calcularProjecao p) = alvo (estadoApos p (mesesLimite p))"
    by (simp add: calcularProjecao_def Let_def)
  note inv = alvo_invariante [of p "mesesLimite p"]
  have zero: "meta p \<le> montanteInicial p \<longrightarrow> mesAlvo (calcularProjecao p) = Some 0"
    using inv res by (auto split: option.splits)
  have first: "\<not> meta p \<le> montanteInicial p \<longrightarrow>
        (case mesAlvo (calcularProjecao p) of
           None \<Rightarrow> \<forall>m. 1 \<le> m \<and> m \<le> mesesLimite p \<longrightarrow> \<not> meta p \<le> saldo (dados (calcularProjecao p) ! m)
         | Some k \<Rightarrow> 1 \<le> k \<and> k \<le> mesesLimite p \<and> meta p \<le> saldo (dados (calcularProjecao p) ! k)
                     \<and> (\<forall>m. 1 \<le> m \<and> m < k \<longrightarrow> \<not> meta p \<le> saldo (dados (calcularProjecao p) ! m)))"
  proof (cases "mesAlvo (calcularProjecao p)")
    case None
    with inv res show ?thesis by (simp add: saldo_dados)
  next
    case (Some k)
    with res have a: "alvo (estadoApos p (mesesLimite p)) = Some k" by simp
    show ?thesis
    proof
      assume n: "\<not> meta p \<le> montanteInicial p"
      with inv a have k: "1 \<le> k" "k \<le> mesesLimite p" "meta p \<le> saldoAtual (estadoApos p k)"
        and least: "\<forall>m. 1 \<le> m \<and> m < k \<longrightarrow> \<not> meta p \<le> saldoAtual (estadoApos p m)"
        by simp_all
      have "\<forall>m. 1 \<le> m \<and> m < k \<longrightarrow> \<not> meta p \<le> saldo (dados (calcularProjecao p) ! m)"
        using least k(2) by (simp add: saldo_dados)
      with k Some show "case mesAlvo (calcularProjecao p) of
           None \<Rightarrow> \<forall>m. 1 \<le> m \<and> m \<le> mesesLimite p \<longrightarrow> \<not> meta p \<le> saldo (dados (calcularProjecao p) ! m)
         | Some k \<Rightarrow> 1 \<le> k \<and> k \<le> mesesLimite p \<and> meta p \<le> saldo (dados (calcularProjecao p) ! k)
                     \<and> (\<forall>m. 1 \<le> m \<and> m < k \<longrightarrow> \<not> meta p \<le> saldo (dados (calcularProjecao p) ! m))"
        by (simp add: saldo_dados)
    qed
  qed
  have keep: "\<forall>n n' k. n \<le> n' \<and> alvo (estadoApos p n) = Some k \<longrightarrow> alvo (estadoApos p n') = Some k"
    using alvo_mantido [of p] by (metis le_add_diff_inverse)
  show ?thesis using seed zero first keep by blast
qed

theorem C3_mes_alvo_witness:
  "mesAlvo (calcularProjecao \<lparr> montanteInicial = Num 0, aporteMensal = Num 100, rentabAnual = Num 0,
          meta = Num 100, anosLimite = 1 / 6, contribuicaoNoInicio = True, usarTaxaReal = False,
          inflacaoAnual = Num 0, inflacaoTabela = None, politicaAporte = Some (mensal_pct (Num (- 3))) \<rparr>) = Some 1
   \<and> saldo (dados (calcularProjecao \<lparr> montanteInicial = Num 0, aporteMensal = Num 100, rentabAnual = Num 0,
          meta = Num 100, anosLimite = 1 / 6, contribuicaoNoInicio = True, usarTaxaReal = False,
          inflacaoAnual = Num 0, inflacaoTabela = None, politicaAporte = Some (mensal_pct (Num (- 3))) \<rparr>) ! 2)
       = Num (- 100)"
proof -
  let ?p = "\<lparr> montanteInicial = Num 0, aporteMensal = Num 100, rentabAnual = Num 0,
          meta = Num 100, anosLimite = 1 / 6, contribuicaoNoInicio = True, usarTaxaReal = False,
          inflacaoAnual = Num 0, inflacaoTabela = None, politicaAporte = Some (mensal_pct (Num (- 3))) \<rparr>"
  have h: "mesesLimite ?p = 2" by (simp add: mesesLimite_def)
  have a1: "alvo (estadoApos ?p 1) = Some 1" by (simp add: avaliar)
  have s2: "saldo (dados (calcularProjecao ?p) ! 2) = Num (- 100)" by (simp add: avaliar)
  have "(1::nat) \<le> 2 \<and> alvo (estadoApos ?p 1) = Some 1" using a1 by simp
  with C3_mes_alvo [of ?p] have "alvo (estadoApos ?p 2) = Some 1" by blast
  then have "mesAlvo (calcularProjecao ?p) = Some 1" by (simp add: calcularProjecao_def Let_def h)
  with s2 show ?thesis by simp
qed

subsection \<open>C4: the floor of the rates\<close>















subsection \<open>C5: when the required rate is null\<close>

text \<open>
  C5. \<open>taxaNecessaria\<close> returns \<open>None\<close> (the source's \<^verbatim>\<open>null\<close>) if and only if none of
  the midpoints its loop evaluates gives a finite final balance that reaches the target.
  The loop evaluates at most 160 midpoints, each a rate of the interval from \<open>-0.9\<close> to
  \<open>1.0\<close>, ends included (in binary64 a midpoint can be an end of its interval, lemma
  \<open>ponto_medio64_extremo\<close>), and a midpoint whose final balance is not
  finite is the last one evaluated: the loop stops there and the function returns what it
  has found so far. \<open>taxaNecessaria\<close> has no raising operation, so its only results are
  \<open>None\<close> and \<open>Some\<close> of a number.
\<close>

theorem C5_taxa_necessaria_null:
  "(taxaNecessaria p = None \<longleftrightarrow>
      \<not> (\<exists>mid \<in> set (candidatos p 160 (Num (- 0.9)) (Num 1.0)).
            isFinite (saldoFinalComTaxa p mid) \<and> meta p \<le> saldoFinalComTaxa p mid))
   \<and> length (candidatos p 160 (Num (- 0.9)) (Num 1.0)) \<le> 160
   \<and> (\<forall>mid \<in> set (candidatos p 160 (Num (- 0.9)) (Num 1.0)). \<exists>r. mid = Num r \<and> - 0.9 \<le> r \<and> r \<le> 1.0)
   \<and> (\<forall>k. k < length (candidatos p 160 (Num (- 0.9)) (Num 1.0))
            \<and> \<not> isFinite (saldoFinalComTaxa p (candidatos p 160 (Num (- 0.9)) (Num 1.0) ! k))
          \<longrightarrow> Suc k = length (candidatos p 160 (Num (- 0.9)) (Num 1.0)))"
proof -
  have "taxaNecessaria p = None \<longleftrightarrow> buscaTaxa p 160 (Num (- 0.9)) (Num 1.0) None = None"
    by (simp add: taxaNecessaria_def split: option.splits)
  moreover have "\<forall>mid \<in> set (candidatos p 160 (Num (- 0.9)) (Num 1.0)). \<exists>r. mid = Num r \<and> - 0.9 \<le> r \<and> r \<le> 1.0"
    using candidatos_intervalo [of "- 0.9" "1.0" _ p 160] by simp
  ultimately show ?thesis
    using candidatos_nao_finito [of _ p 160 "Num (- 0.9)" "Num 1.0"]
    by (simp add: buscaTaxa_None length_candidatos)
qed

theorem C5_taxa_necessaria_null_witness:
  "taxaNecessaria \<lparr> montanteInicial = Num 1000, aporteMensal = Num 0, rentabAnual = Num 0, meta = Num 2000,
        anosLimite = 1 / 12, contribuicaoNoInicio = True, usarTaxaReal = True, inflacaoAnual = Num (- 1),
        inflacaoTabela = None, politicaAporte = None \<rparr> = None
   \<and> candidatos \<lparr> montanteInicial = Num 1000, aporteMensal = Num 0, rentabAnual = Num 0, meta = Num 2000,
        anosLimite = 1 / 12, contribuicaoNoInicio = True, usarTaxaReal = True, inflacaoAnual = Num (- 1),
        inflacaoTabela = None, politicaAporte = None \<rparr> 160 (Num (- 0.9)) (Num 1.0) = [Num (1 / 20)]
   \<and> saldoFinalComTaxa \<lparr> montanteInicial = Num 1000, aporteMensal = Num 0, rentabAnual = Num 0, meta = Num 2000,
        anosLimite = 1 / 12, contribuicaoNoInicio = True, usarTaxaReal = True, inflacaoAnual = Num (- 1),
        inflacaoTabela = None, politicaAporte = None \<rparr> (Num (1 / 20)) = PosInf"
proof -
  let ?p = "\<lparr> montanteInicial = Num 1000, aporteMensal = Num 0, rentabAnual = Num 0, meta = Num 2000,
        anosLimite = 1 / 12, contribuicaoNoInicio = True, usarTaxaReal = True, inflacaoAnual = Num (- 1),
        inflacaoTabela = None, politicaAporte = None \<rparr>"
  have n: "nMeses ?p = 1" by (simp add: nMeses_def)
  have sf: "saldoFinalComTaxa ?p (Num (1 / 20)) = PosInf"
    by (simp add: saldoFinalComTaxa_def n Let_def inflacaoMensalDoMes_def inflacaoAnualDoAno_def
          aporteNoMes_def politicaOuPadrao_def num_simps)
  have "candidatos ?p (Suc 159) (Num (- 0.9)) (Num 1.0) = [Num (1 / 20)]"
    by (simp only: candidatos.simps Let_def) (simp add: sf)
  moreover have e: "Suc 159 = 160" by simp
  ultimately have c: "candidatos ?p 160 (Num (- 0.9)) (Num 1.0) = [Num (1 / 20)]" by (simp only: e)
  from C5_taxa_necessaria_null [of ?p] c sf have "taxaNecessaria ?p = None" by simp
  with c sf show ?thesis by simp
qed

subsection \<open>C6: the annual figure of the required rate\<close>

text \<open>
  C6. When \<open>taxaNecessaria\<close> returns a number, that number is computed from the monthly
  rate \<open>rMensal\<close> the search found (one of its midpoints, with a finite final balance that
  reaches the target): with \<open>rAnualReal = (1 + rMensal)^12 - 1\<close> it is
  \<open>(1 + rAnualReal) * (1 + m) - 1\<close> when \<open>usarTaxaReal\<close> holds and \<open>rAnualReal\<close> otherwise,
  where \<open>m\<close> is the default annual inflation when the table is absent or empty and the
  arithmetic mean of the table's entries otherwise.
\<close>

theorem C6_taxa_anual_nominal:
  assumes "taxaNecessaria p = Some v"
  shows "(\<exists>rMensal. buscaTaxa p 160 (Num (- 0.9)) (Num 1.0) None = Some rMensal
            \<and> rMensal \<in> set (candidatos p 160 (Num (- 0.9)) (Num 1.0))
            \<and> isFinite (saldoFinalComTaxa p rMensal) \<and> meta p \<le> saldoFinalComTaxa p rMensal
            \<and> v = (let rAnualReal = Math_pow (1 + rMensal) (Num 12) - 1 in
                   if usarTaxaReal p then (1 + rAnualReal) * (1 + inflacaoMediaAnual p) - 1
                   else rAnualReal))
       \<and> (inflacaoTabela p = None \<or> inflacaoTabela p = Some [] \<longrightarrow> inflacaoMediaAnual p = inflacaoAnual p)
       \<and> (\<forall>xs. xs \<noteq> [] \<and> inflacaoTabela p = Some (map Num xs)
               \<longrightarrow> inflacaoMediaAnual p = Num (sum_list xs / real (length xs)))"
proof -
  from assms obtain r where r: "buscaTaxa p 160 (Num (- 0.9)) (Num 1.0) None = Some r"
    and v: "v = toAnualNominal p r"
    by (auto simp: taxaNecessaria_def split: option.splits)
  from buscaTaxa_Some [OF r]
  have c: "r \<in> set (candidatos p 160 (Num (- 0.9)) (Num 1.0))
           \<and> isFinite (saldoFinalComTaxa p r) \<and> meta p \<le> saldoFinalComTaxa p r"
    by simp
  have d: "inflacaoTabela p = None \<or> inflacaoTabela p = Some [] \<longrightarrow> inflacaoMediaAnual p = inflacaoAnual p"
    by (auto simp: inflacaoMediaAnual_def)
  show ?thesis
    using r v c d media_aritmetica [of _ p] by (auto simp: toAnualNominal_def Let_def)
qed

theorem C6_taxa_anual_nominal_witness:
  "\<exists>v r. taxaNecessaria \<lparr> montanteInicial = Num 0, aporteMensal = Num 0, rentabAnual = Num 0, meta = Num 0,
              anosLimite = 1 / 12, contribuicaoNoInicio = True, usarTaxaReal = True, inflacaoAnual = Num 0,
              inflacaoTabela = Some [Num (1 / 50), Num (3 / 50)], politicaAporte = None \<rparr> = Some v
        \<and> buscaTaxa \<lparr> montanteInicial = Num 0, aporteMensal = Num 0, rentabAnual = Num 0, meta = Num 0,
              anosLimite = 1 / 12, contribuicaoNoInicio = True, usarTaxaReal = True, inflacaoAnual = Num 0,
              inflacaoTabela = Some [Num (1 / 50), Num (3 / 50)], politicaAporte = None \<rparr>
              160 (Num (- 0.9)) (Num 1.0) None = Some r
        \<and> v = (1 + (Math_pow (1 + r) (Num 12) - 1)) * (1 + Num (1 / 25)) - 1"
proof -
  let ?p = "\<lparr> montanteInicial = Num 0, aporteMensal = Num 0, rentabAnual = Num 0, meta = Num 0,
              anosLimite = 1 / 12, contribuicaoNoInicio = True, usarTaxaReal = True, inflacaoAnual = Num 0,
              inflacaoTabela = Some [Num (1 / 50), Num (3 / 50)], politicaAporte = None \<rparr>"
  have n: "nMeses ?p = 1" by (simp add: nMeses_def)
  have sf: "saldoFinalComTaxa ?p (Num (1 / 20)) = Num 0"
    by (simp add: saldoFinalComTaxa_def n Let_def inflacaoMensalDoMes_def inflacaoAnualDoAno_def
          aporteNoMes_def politicaOuPadrao_def num_simps)
  have "buscaTaxa ?p 160 (Num (- 0.9)) (Num 1.0) None \<noteq> None"
    using primeiro_candidato [of ?p "Num (- 0.9)" "Num 1.0" 159 None] sf by simp
  then have "taxaNecessaria ?p \<noteq> None"
    by (simp add: taxaNecessaria_def split: option.splits)
  then obtain v where v: "taxaNecessaria ?p = Some v" by blast
  from C6_taxa_anual_nominal [OF v]
  have "\<forall>xs. xs \<noteq> [] \<and> inflacaoTabela ?p = Some (map Num xs)
               \<longrightarrow> inflacaoMediaAnual ?p = Num (sum_list xs / real (length xs))"
    by blast
  then have "[1 / 50, 3 / 50 :: real] \<noteq> [] \<and> inflacaoTabela ?p = Some (map Num [1 / 50, 3 / 50])
               \<longrightarrow> inflacaoMediaAnual ?p = Num (sum_list [1 / 50, 3 / 50] / real (length [1 / 50, 3 / 50 :: real]))"
    by (rule spec)
  then have media: "inflacaoMediaAnual ?p = Num (1 / 25)" by simp
  from C6_taxa_anual_nominal [OF v] obtain r
    where r: "buscaTaxa ?p 160 (Num (- 0.9)) (Num 1.0) None = Some r"
      and vr: "v = (let rAnualReal = Math_pow (1 + r) (Num 12) - 1 in
                   if usarTaxaReal ?p then (1 + rAnualReal) * (1 + inflacaoMediaAnual ?p) - 1
                   else rAnualReal)"
    by blast
  from vr media have "v = (1 + (Math_pow (1 + r) (Num 12) - 1)) * (1 + Num (1 / 25)) - 1"
    by (simp add: Let_def del: Math_pow.simps)
  with v r show ?thesis by blast
qed

subsection \<open>C7: the annual inflation of a year\<close>

text \<open>
  C7. For a year index of at least 1, \<open>inflacaoAnualDoAno\<close> returns the default rate when
  the table is absent or empty, the entry \<open>anoIndex - 1\<close> of the table when that index is
  within the table, and the last entry of the table otherwise.
\<close>

theorem C7_inflacao_anual_do_ano:
  assumes "1 \<le> anoIndex"
  shows "inflacaoAnualDoAno anoIndex padrao None = Some padrao
       \<and> inflacaoAnualDoAno anoIndex padrao (Some []) = Some padrao
       \<and> (t \<noteq> [] \<and> nat (anoIndex - 1) < length t \<longrightarrow>
             inflacaoAnualDoAno anoIndex padrao (Some t) = Some (t ! nat (anoIndex - 1)))
       \<and> (t \<noteq> [] \<and> length t \<le> nat (anoIndex - 1) \<longrightarrow>
             inflacaoAnualDoAno anoIndex padrao (Some t) = Some (last t))"
  using assms by (auto simp: inflacaoAnualDoAno_def last_conv_nth)

theorem C7_inflacao_anual_do_ano_witness:
  "inflacaoAnualDoAno 1 (Num 0.04) None = Some (Num 0.04)
   \<and> inflacaoAnualDoAno 1 (Num 0.04) (Some []) = Some (Num 0.04)
   \<and> inflacaoAnualDoAno 2 (Num 0.04) (Some [Num 0.1, Num 0.05]) = Some (Num 0.05)
   \<and> inflacaoAnualDoAno 7 (Num 0.04) (Some [Num 0.1, Num 0.05]) = Some (Num 0.05)"
proof -
  have h1: "(1::int) \<le> 1" and h2: "(1::int) \<le> 2" and h7: "(1::int) \<le> 7" by simp_all
  show ?thesis
    using C7_inflacao_anual_do_ano [OF h1, of "Num 0.04" "[]"]
          C7_inflacao_anual_do_ano [OF h2, of "Num 0.04" "[Num 0.1, Num 0.05]"]
          C7_inflacao_anual_do_ano [OF h7, of "Num 0.04" "[Num 0.1, Num 0.05]"]
    by simp
qed

subsection \<open>C8: the bisection keeps a sufficient upper bound\<close>

text \<open>
  C8. If \<open>atingeMetaComAporte\<close> holds for the upper bound \<open>hi0\<close> that the doubling phase of
  \<open>aporteNecessario\<close> ends with, it holds for the value returned: a bisection step replaces
  the upper bound by the midpoint only when the predicate holds at the midpoint, and
  otherwise keeps it, so from an upper bound at which the predicate holds every number of
  steps returns such a bound.
\<close>

theorem C8_bissecao_mantem_sucesso:
  assumes "dobrar p (hiInicial p) 0 = Inr hi0" and "atingeMetaComAporte p hi0 = Inr True"
  shows "(\<exists>r. aporteNecessario p = Inr r \<and> atingeMetaComAporte p r = Inr True)
       \<and> (\<forall>i lo hi. bissecao p (Suc i) lo hi =
             (if atingeMetaComAporte p ((lo + hi) / Num 2) = Inr True
              then bissecao p i lo ((lo + hi) / Num 2)
              else bissecao p i ((lo + hi) / Num 2) hi))
       \<and> (\<forall>i lo hi. atingeMetaComAporte p hi = Inr True \<longrightarrow>
             (\<exists>r. bissecao p i lo hi = Inr r \<and> atingeMetaComAporte p r = Inr True))"
proof -
  have "\<exists>r. aporteNecessario p = Inr r \<and> atingeMetaComAporte p r = Inr True"
    using bissecao_invariante [OF assms(2), of 80 "Num 0"] assms(1) by (simp add: aporteNecessario_def)
  then show ?thesis
    using bissecao_passo bissecao_invariante by blast
qed

theorem C8_bissecao_mantem_sucesso_witness:
  "dobrar \<lparr> montanteInicial = Num 0, aporteMensal = Num 0, rentabAnual = Num 0, meta = Num 100,
        anosLimite = 1 / 12, contribuicaoNoInicio = True, usarTaxaReal = False, inflacaoAnual = Num 0,
        inflacaoTabela = None, politicaAporte = None \<rparr> (Num 100) 0 = Inr (Num 100)
   \<and> atingeMetaComAporte \<lparr> montanteInicial = Num 0, aporteMensal = Num 0, rentabAnual = Num 0, meta = Num 100,
        anosLimite = 1 / 12, contribuicaoNoInicio = True, usarTaxaReal = False, inflacaoAnual = Num 0,
        inflacaoTabela = None, politicaAporte = None \<rparr> (Num 100) = Inr True
   \<and> (\<exists>r. aporteNecessario \<lparr> montanteInicial = Num 0, aporteMensal = Num 0, rentabAnual = Num 0, meta = Num 100,
        anosLimite = 1 / 12, contribuicaoNoInicio = True, usarTaxaReal = False, inflacaoAnual = Num 0,
        inflacaoTabela = None, politicaAporte = None \<rparr> = Inr r
        \<and> atingeMetaComAporte \<lparr> montanteInicial = Num 0, aporteMensal = Num 0, rentabAnual = Num 0, meta = Num 100,
        anosLimite = 1 / 12, contribuicaoNoInicio = True, usarTaxaReal = False, inflacaoAnual = Num 0,
        inflacaoTabela = None, politicaAporte = None \<rparr> r = Inr True)"
proof -
  let ?p = "\<lparr> montanteInicial = Num 0, aporteMensal = Num 0, rentabAnual = Num 0, meta = Num 100,
        anosLimite = 1 / 12, contribuicaoNoInicio = True, usarTaxaReal = False, inflacaoAnual = Num 0,
        inflacaoTabela = None, politicaAporte = None \<rparr>"
  have n: "nMeses ?p = 1" by (simp add: nMeses_def)
  have h: "hiInicial ?p = Num 100" by (simp add: hiInicial_def n Math_max_def)
  have a: "atingeMetaComAporte ?p (Num 100) = Inr True"
    by (simp add: atingeMetaComAporte_def n avaliar)
  have d: "dobrar ?p (hiInicial ?p) 0 = Inr (Num 100)"
    by (subst dobrar.simps) (simp add: h a)
  from C8_bissecao_mantem_sucesso [OF d a] d a h show ?thesis by simp
qed

subsection \<open>C9: constant contributions at a zero rate\<close>

text \<open>
  C9 does not hold as stated. The engine adds in binary64, and the sum of six contributions
  of \<^verbatim>\<open>0.1\<close> is \<^verbatim>\<open>0.6\<close> where the product \<^verbatim>\<open>6 * 0.1\<close> is \<^verbatim>\<open>0.6000000000000001\<close>.
\<close>

theorem C9_contraexemplo:
  "saldo (dados (calcularProjecao64 \<lparr> montanteInicial = Num 0, aporteMensal = binary64 (1 / 10), rentabAnual = Num 0,
          meta = Num 1000, anosLimite = 1 / 2, contribuicaoNoInicio = True, usarTaxaReal = False,
          inflacaoAnual = Num 0, inflacaoTabela = None, politicaAporte = None \<rparr>) ! 6) = Num (5404319552844595 / 9007199254740992)
   \<and> round64 (Num 6 * binary64 (1 / 10)) = Num (1351079888211149 / 2251799813685248)
   \<and> saldo (dados (calcularProjecao64 \<lparr> montanteInicial = Num 0, aporteMensal = binary64 (1 / 10), rentabAnual = Num 0,
          meta = Num 1000, anosLimite = 1 / 2, contribuicaoNoInicio = True, usarTaxaReal = False,
          inflacaoAnual = Num 0, inflacaoTabela = None, politicaAporte = None \<rparr>) ! 6) \<noteq> round64 (Num 6 * binary64 (1 / 10))"
proof -
  let ?p = "\<lparr> montanteInicial = Num 0, aporteMensal = Num (3602879701896397 / 36028797018963968), rentabAnual = Num 0,
          meta = Num 1000, anosLimite = 1 / 2, contribuicaoNoInicio = True, usarTaxaReal = False,
          inflacaoAnual = Num 0, inflacaoTabela = None, politicaAporte = None \<rparr>"
  have v0: "binary64 (3602879701896397 / 36028797018963968) = Num (3602879701896397 / 36028797018963968)"
    using binary64_binade [of "- 4" "3602879701896397 / 36028797018963968"] by (simp add: Let_def power_int_minus)
  have v1: "binary64 (3602879701896397 / 18014398509481984) = Num (3602879701896397 / 18014398509481984)"
    using binary64_binade [of "- 3" "3602879701896397 / 18014398509481984"] by (simp add: Let_def power_int_minus)
  have v2: "binary64 (10808639105689191 / 36028797018963968) = Num (1351079888211149 / 4503599627370496)"
    using binary64_binade [of "- 2" "10808639105689191 / 36028797018963968"] by (simp add: Let_def power_int_minus)
  have v3: "binary64 (1351079888211149 / 4503599627370496) = Num (1351079888211149 / 4503599627370496)"
    using binary64_binade [of "- 2" "1351079888211149 / 4503599627370496"] by (simp add: Let_def power_int_minus)
  have v4: "binary64 (14411518807585589 / 36028797018963968) = Num (3602879701896397 / 9007199254740992)"
    using binary64_binade [of "- 2" "14411518807585589 / 36028797018963968"] by (simp add: Let_def power_int_minus)
  have v5: "binary64 (3602879701896397 / 9007199254740992) = Num (3602879701896397 / 9007199254740992)"
    using binary64_binade [of "- 2" "3602879701896397 / 9007199254740992"] by (simp add: Let_def power_int_minus)
  have v6: "binary64 (18014398509481985 / 36028797018963968) = Num (1 / 2)"
    using binary64_binade [of "- 1" "18014398509481985 / 36028797018963968"] by (simp add: Let_def power_int_minus)
  have v7: "binary64 (1 / 2) = Num (1 / 2)"
    using binary64_binade [of "- 1" "1 / 2"] by (simp add: Let_def power_int_minus)
  have v8: "binary64 (21617278211378381 / 36028797018963968) = Num (5404319552844595 / 9007199254740992)"
    using binary64_binade [of "- 1" "21617278211378381 / 36028797018963968"] by (simp add: Let_def power_int_minus)
  have v9: "binary64 (5404319552844595 / 9007199254740992) = Num (5404319552844595 / 9007199254740992)"
    using binary64_binade [of "- 1" "5404319552844595 / 9007199254740992"] by (simp add: Let_def power_int_minus)
  have v10: "binary64 (10808639105689191 / 18014398509481984) = Num (1351079888211149 / 2251799813685248)"
    using binary64_binade [of "- 1" "10808639105689191 / 18014398509481984"] by (simp add: Let_def power_int_minus)
  have m: "mesesLimite ?p = 6" by (simp add: mesesLimite_def)
  note passo = saldo64_sem_juros_passo [of ?p, simplified politicaOuPadrao_def, simplified]
  have s0: "saldoAtual (estadoApos_ar round64 ?p 0) = Num 0"
    by (simp add: estadoApos_ar_0 estadoInicial_ar_def)
  have s1: "saldoAtual (estadoApos_ar round64 ?p (Suc 0)) = Num (3602879701896397 / 36028797018963968)"
    by (subst passo) (simp add: s0 v0)
  have s2: "saldoAtual (estadoApos_ar round64 ?p (Suc (Suc 0))) = Num (3602879701896397 / 18014398509481984)"
    by (subst passo) (simp add: s1 v1)
  have s3: "saldoAtual (estadoApos_ar round64 ?p (Suc (Suc (Suc 0)))) = Num (1351079888211149 / 4503599627370496)"
    by (subst passo) (simp add: s2 v2 v3)
  have s4: "saldoAtual (estadoApos_ar round64 ?p (Suc (Suc (Suc (Suc 0))))) = Num (3602879701896397 / 9007199254740992)"
    by (subst passo) (simp add: s3 v4 v5)
  have s5: "saldoAtual (estadoApos_ar round64 ?p (Suc (Suc (Suc (Suc (Suc 0)))))) = Num (1 / 2)"
    by (subst passo) (simp add: s4 v6 v7)
  have s6: "saldoAtual (estadoApos_ar round64 ?p (Suc (Suc (Suc (Suc (Suc (Suc 0))))))) = Num (5404319552844595 / 9007199254740992)"
    by (subst passo) (simp add: s5 v8 v9)
  have "(6::nat) = Suc (Suc (Suc (Suc (Suc (Suc 0)))))" by simp
  with s6 have "saldoAtual (estadoApos_ar round64 ?p 6) = Num (5404319552844595 / 9007199254740992)"
    by (simp only:)
  with saldo_dados_ar [of 6 ?p round64] m
  have a: "saldo (dados (calcularProjecao64 ?p) ! 6) = Num (5404319552844595 / 9007199254740992)"
    by (simp add: calcularProjecao64_def)
  have b: "round64 (Num 6 * binary64 (1 / 10)) = Num (1351079888211149 / 2251799813685248)"
    by (simp add: binary64_um_decimo v10)
  show ?thesis using a b by (simp add: binary64_um_decimo)
qed

text \<open>
  C9, as amended. With no initial amount, a zero annual return, nominal rates, the constant
  policy and contributions at the start of the month, the balance of record \<open>n \<ge> 1\<close> in
  binary64 is \<open>n\<close> times the contribution \<open>a\<close> whenever every multiple \<open>k * a\<close> for \<open>k\<close> from 1 to
  \<open>n\<close> is a binary64 number, that is, rounds to itself; the product \<^verbatim>\<open>n * A\<close> is then exact
  too.
\<close>

theorem C9_saldo_sem_juros:
  assumes "montanteInicial p = Num 0" and "rentabAnual p = Num 0" and "\<not> usarTaxaReal p"
    and "politicaOuPadrao p = constante" and "contribuicaoNoInicio p"
    and "aporteMensal p = Num a"
    and "1 \<le> n" and "n \<le> mesesLimite p"
    and "\<forall>k. 1 \<le> k \<and> k \<le> n \<longrightarrow> binary64 (real k * a) = Num (real k * a)"
  shows "saldo (dados (calcularProjecao64 p) ! n) = round64 (Num (real n) * aporteMensal p)
       \<and> saldo (dados (calcularProjecao64 p) ! n) = Num (real n * a)"
proof -
  note passo = saldo64_sem_juros_passo [OF assms(2-5)]
  have "1 \<le> k \<Longrightarrow> k \<le> n \<Longrightarrow> saldoAtual (estadoApos_ar round64 p k) = Num (real k * a)" for k
  proof (induction k)
    case 0
    then show ?case by simp
  next
    case (Suc k)
    from Suc.prems assms(9) have r: "binary64 (real (Suc k) * a) = Num (real (Suc k) * a)" by blast
    show ?case
    proof (cases "k = 0")
      case True
      with r have "binary64 a = Num a" by simp
      with True assms(1,6) show ?thesis
        by (simp add: passo estadoApos_ar_0 estadoInicial_ar_def)
    next
      case False
      with Suc have ih: "saldoAtual (estadoApos_ar round64 p k) = Num (real k * a)" by simp
      have "real k * a + a = real (Suc k) * a" by (simp add: algebra_simps)
      with r ih assms(6) show ?thesis
        by (simp add: passo del: of_nat_Suc)
    qed
  qed
  with assms(7,8) have "saldo (dados (calcularProjecao64 p) ! n) = Num (real n * a)"
    by (simp add: saldo_dados_ar calcularProjecao64_def)
  moreover from assms(7,9) have "binary64 (real n * a) = Num (real n * a)" by blast
  ultimately show ?thesis using assms(6) by simp
qed

theorem C9_saldo_sem_juros_witness:
  "saldo (dados (calcularProjecao64 \<lparr> montanteInicial = Num 0, aporteMensal = Num 100, rentabAnual = Num 0,
          meta = Num 1000, anosLimite = 1 / 4, contribuicaoNoInicio = True, usarTaxaReal = False,
          inflacaoAnual = Num 0, inflacaoTabela = None, politicaAporte = None \<rparr>) ! 3) = Num 300
   \<and> round64 (Num 3 * Num 100) = Num 300"
proof -
  let ?p = "\<lparr> montanteInicial = Num 0, aporteMensal = Num 100, rentabAnual = Num 0,
          meta = Num 1000, anosLimite = 1 / 4, contribuicaoNoInicio = True, usarTaxaReal = False,
          inflacaoAnual = Num 0, inflacaoTabela = None, politicaAporte = None \<rparr>"
  have h1: "binary64 100 = Num 100"
    using binary64_binade [of 6 100] by (simp add: Let_def power_int_minus)
  have h2: "binary64 200 = Num 200"
    using binary64_binade [of 7 200] by (simp add: Let_def power_int_minus)
  have h3: "binary64 300 = Num 300"
    using binary64_binade [of 8 300] by (simp add: Let_def power_int_minus)
  have rep: "\<forall>k. 1 \<le> k \<and> k \<le> (3::nat) \<longrightarrow> binary64 (real k * 100) = Num (real k * 100)"
  proof (intro allI impI)
    fix k :: nat
    assume "1 \<le> k \<and> k \<le> 3"
    then have "k = 1 \<or> k = 2 \<or> k = 3" by auto
    then show "binary64 (real k * 100) = Num (real k * 100)" using h1 h2 h3 by auto
  qed
  have m: "mesesLimite ?p = 3" by (simp add: mesesLimite_def)
  have "saldo (dados (calcularProjecao64 ?p) ! 3) = round64 (Num (real 3) * aporteMensal ?p)
       \<and> saldo (dados (calcularProjecao64 ?p) ! 3) = Num (real 3 * 100)"
    by (rule C9_saldo_sem_juros [of ?p 100 3]) (simp_all add: politicaOuPadrao_def m rep)
  then show ?thesis by (simp add: h3)
qed

subsection \<open>C10: the lookup of the final balance\<close>

text \<open>
  C10. The series of a projection has the records \<open>0 .. mesesLimite\<close>, so it is never
  empty. The month count \<open>nMeses\<close> of \<open>aporteNecessario\<close> is \<open>mesesLimite\<close> or one more;
  within the series the lookup reads record \<open>nMeses\<close>, past its end it reads the last
  record. The lookup, \<open>atingeMetaComAporte\<close> and \<open>aporteNecessario\<close> never raise the
  \<open>TypeError\<close> of a missing record.
\<close>

theorem C10_consulta_do_saldo_final:
  "length (dados (calcularProjecao (p \<lparr> aporteMensal := A \<rparr>))) = Suc (mesesLimite p)
   \<and> mesesLimite p \<le> nMeses p \<and> nMeses p \<le> Suc (mesesLimite p)
   \<and> (nMeses p \<le> mesesLimite p \<longrightarrow>
        saldoFinal (dados (calcularProjecao (p \<lparr> aporteMensal := A \<rparr>))) (nMeses p)
          = Inr (saldo (dados (calcularProjecao (p \<lparr> aporteMensal := A \<rparr>)) ! nMeses p)))
   \<and> (mesesLimite p < nMeses p \<longrightarrow>
        saldoFinal (dados (calcularProjecao (p \<lparr> aporteMensal := A \<rparr>))) (nMeses p)
          = Inr (saldo (last (dados (calcularProjecao (p \<lparr> aporteMensal := A \<rparr>))))))
   \<and> (\<exists>b. atingeMetaComAporte p A = Inr b)
   \<and> (\<exists>r. aporteNecessario p = Inr r)"
proof -
  have "\<exists>r. aporteNecessario p = Inr r"
  proof -
    obtain h where "dobrar p (hiInicial p) 0 = Inr h" using dobrar_total by blast
    then show ?thesis using bissecao_total [of p 80 "Num 0" h] by (simp add: aporteNecessario_def)
  qed
  then show ?thesis
    using atinge_total [of p A] mesesLimite_le_nMeses [of p] nMeses_le_Suc_mesesLimite [of p]
    by (simp add: length_dados saldoFinal_dados mesesLimite_aporteMensal)
qed

theorem C10_consulta_do_saldo_final_witness:
  "mesesLimite \<lparr> montanteInicial = Num 0, aporteMensal = Num 0, rentabAnual = Num 0, meta = Num 10000,
        anosLimite = 0.55, contribuicaoNoInicio = True, usarTaxaReal = False, inflacaoAnual = Num 0,
        inflacaoTabela = None, politicaAporte = None \<rparr> = 6
   \<and> nMeses \<lparr> montanteInicial = Num 0, aporteMensal = Num 0, rentabAnual = Num 0, meta = Num 10000,
        anosLimite = 0.55, contribuicaoNoInicio = True, usarTaxaReal = False, inflacaoAnual = Num 0,
        inflacaoTabela = None, politicaAporte = None \<rparr> = 7
   \<and> saldoFinal (dados (calcularProjecao \<lparr> montanteInicial = Num 0, aporteMensal = Num 100, rentabAnual = Num 0,
        meta = Num 10000, anosLimite = 0.55, contribuicaoNoInicio = True, usarTaxaReal = False,
        inflacaoAnual = Num 0, inflacaoTabela = None, politicaAporte = None \<rparr>)) 7 = Inr (Num 600)"
proof -
  let ?p = "\<lparr> montanteInicial = Num 0, aporteMensal = Num 0, rentabAnual = Num 0, meta = Num 10000,
        anosLimite = 0.55, contribuicaoNoInicio = True, usarTaxaReal = False, inflacaoAnual = Num 0,
        inflacaoTabela = None, politicaAporte = None \<rparr>"
  have m: "mesesLimite ?p = 6" by (simp add: mesesLimite_def)
  have n: "nMeses ?p = 7" by (simp add: nMeses_def)
  have l: "saldo (last (dados (calcularProjecao (?p \<lparr> aporteMensal := Num 100 \<rparr>)))) = Num 600"
    by (simp add: avaliar)
  have "mesesLimite ?p < nMeses ?p" using m n by simp
  with C10_consulta_do_saldo_final [of "Num 100" ?p]
  have "saldoFinal (dados (calcularProjecao (?p \<lparr> aporteMensal := Num 100 \<rparr>))) (nMeses ?p)
          = Inr (saldo (last (dados (calcularProjecao (?p \<lparr> aporteMensal := Num 100 \<rparr>)))))"
    by blast
  with l m n show ?thesis by simp
qed

end
